theory Spec2Isabelle
  imports Main "HOL-Library.AList" "HOL-Library.Char_ord" "HOL-Library.List_Lexorder"
begin

section \<open>Shared data of the two controllers\<close>

text \<open>
  A thrown JavaScript value as far as the controllers look at it: its \<^verbatim>\<open>message\<close> and its
  \<^verbatim>\<open>code\<close>. \<^verbatim>\<open>new MvError(msg, code)\<close> carries a code, \<^verbatim>\<open>new Error(msg)\<close> and a
  thrown object literal \<^verbatim>\<open>{message}\<close> carry none.
\<close>

record js_error =
  message :: string
  code :: "string option"

definition Error :: "string \<Rightarrow> js_error" where
  "Error m = \<lparr>message = m, code = None\<rparr>"

definition MvError :: "string \<Rightarrow> string \<Rightarrow> js_error" where
  "MvError m c = \<lparr>message = m, code = Some c\<rparr>"

text \<open>The message of the TypeError that reading a property of \<^verbatim>\<open>null\<close>/\<^verbatim>\<open>undefined\<close> raises.\<close>

definition TypeError :: string where
  "TypeError = ''TypeError''"

text \<open>A promise is settled at most once: \<^verbatim>\<open>resolve\<close> and \<^verbatim>\<open>reject\<close> on a settled one do nothing.\<close>

datatype 'a promise = Pending | Resolved 'a | Rejected js_error

definition resolve :: "'a \<Rightarrow> 'a promise \<Rightarrow> 'a promise" where
  "resolve v p = (case p of Pending \<Rightarrow> Resolved v | _ \<Rightarrow> p)"

definition reject :: "js_error \<Rightarrow> 'a promise \<Rightarrow> 'a promise" where
  "reject e p = (case p of Pending \<Rightarrow> Rejected e | _ \<Rightarrow> p)"

text \<open>
  How a call of a controller method ends: it returns a value, it throws, or (for the
  import flow) it returns the promise of the confirmation popup, which the dialog
  settles later.
\<close>

datatype 'a completion = Returns 'a | Throws js_error | ReturnsPopupPromise

text \<open>The ports a controller emits on: \<^verbatim>\<open>this.emit\<close>, \<^verbatim>\<open>this.ports.editor\<close>, \<^verbatim>\<open>this.ports.editorCont\<close>.\<close>

datatype port = Self | Editor | EditorCont

text \<open>\<^verbatim>\<open>undefined\<close>, \<^verbatim>\<open>null\<close> or a string: the three values the payload variable \<^verbatim>\<open>data\<close> can hold.\<close>

datatype js_data = Undefined | Null | Data string

datatype event =
    import_error string
  | key_details
  | error_message js_error
  | get_plaintext string bool
  | set_text string
  | set_attachment string
  | decrypt_in_progress
  | decrypt_end
  | decrypt_failed js_error
  | encrypt_in_progress
  | encrypt_end
  | encrypt_failed
  | show_pwd_dialog string
  | hide_pwd_dialog
  | encrypted_message string

text \<open>
  Everything a controller does to its collaborators, in the order it does it: events
  emitted on a port, and calls of the window host, the keyring and the engine.
\<close>

datatype action =
    Emit port event
  | WindowsOpenPopup string
  | PopupClose string
  | ImportKeysCall string string
  | ConsoleLog string
  | UiLogPush string string
  | SyncPublicKeysCall string "string list"
  | EncryptMessageCall js_data "string list" "string option"
  | EncryptFileCall string "string list" "string option"
  | SignMessageCall string "string option"
  | TriggerSyncCall

text \<open>
  The world outside the controllers: the keyrings, the trace of actions so far, and the
  number of controllers the factory has created (each takes its id from \<^verbatim>\<open>getHash\<close>).
\<close>

record 'ks world =
  keystore :: 'ks
  trace :: "action list"
  created :: nat

definition act :: "action list \<Rightarrow> 'ks world \<Rightarrow> 'ks world" where
  "act as w = w\<lparr>trace := trace w @ as\<rparr>"

section \<open>ImportController\<close>

text \<open>\<^verbatim>\<open>openpgp.enums.keyStatus\<close>.\<close>

datatype keyStatus = invalid | expired | revoked | valid | no_self_cert

text \<open>The object \<^verbatim>\<open>openpgp.key.readArmored\<close> resolves to: \<^verbatim>\<open>{keys, err}\<close>, \<^verbatim>\<open>err\<close> null or a list.\<close>

record 'k read_result =
  keys :: "'k list"
  err :: "string list option"

record user_id =
  userid :: string
  name :: string
  email :: string

record uiUser =
  ui_id :: nat
  ui_userId :: string
  ui_name :: string
  ui_email :: string
  ui_status :: keyStatus

record keyDetails =
  kd_type :: string
  kd_users :: "uiUser list"

record import_result =
  ir_type :: string
  ir_message :: string

text \<open>
  The collaborators of the import flow, none of which is part of the controller: the
  OpenPGP library (\<^verbatim>\<open>readArmored\<close>, \<^verbatim>\<open>verifyPrimaryKey\<close>, \<^verbatim>\<open>armor\<close>, \<^verbatim>\<open>update\<close>,
  \<^verbatim>\<open>getFingerprint\<close>, the users of a key and \<^verbatim>\<open>user.verify\<close>), the key module
  (\<^verbatim>\<open>sanitizeKey\<close>, \<^verbatim>\<open>mapKeys\<close>, \<^verbatim>\<open>parseUserId\<close>, \<^verbatim>\<open>cloneKey\<close>, \<^verbatim>\<open>getLastModifiedDate\<close>), the
  keyring module (\<^verbatim>\<open>getKeyringById\<close>, \<^verbatim>\<open>keystore.getKeysForId\<close>, \<^verbatim>\<open>importKeys\<close>), the key
  registry (\<^verbatim>\<open>lookup\<close>) and \<^verbatim>\<open>getHash\<close>. Each is a parameter. A call that the controller
  guards (a keyring that does not exist, a key that does not parse, a key that
  \<^verbatim>\<open>sanitizeKey\<close> drops, an import that fails) has its failure in its result type; the other
  calls are taken to return. A key is a value of \<^typ>\<open>'k\<close>: \<^verbatim>\<open>cloneKey\<close> yields a copy, and
  \<^verbatim>\<open>update\<close> yields the merged copy and leaves the key it was cloned from as it was.
\<close>

record ('k, 'ks) env =
  getKeyringById :: "'ks \<Rightarrow> string \<Rightarrow> string + string"
  readArmored :: "string \<Rightarrow> 'k read_result"
  sanitizeKey :: "'k option \<Rightarrow> string + 'k option"
  verifyPrimaryKey :: "'k \<Rightarrow> keyStatus"
  armor :: "'k \<Rightarrow> string"
  mapKeys :: "'k list \<Rightarrow> keyDetails list"
  keyUsers :: "'k \<Rightarrow> user_id option list"
  verifyUser :: "'k \<Rightarrow> nat \<Rightarrow> keyStatus"
  parseUserId :: "uiUser \<Rightarrow> uiUser"
  getFingerprint :: "'k \<Rightarrow> string"
  getKeysForId :: "'ks \<Rightarrow> string \<Rightarrow> string \<Rightarrow> 'k list option"
  importKeys :: "'ks \<Rightarrow> string \<Rightarrow> string \<Rightarrow> import_result \<times> 'ks"
  cloneKey :: "'k \<Rightarrow> 'k"
  update :: "'k \<Rightarrow> 'k \<Rightarrow> 'k"
  getLastModifiedDate :: "'k \<Rightarrow> int"
  registryLookup :: "'ks \<Rightarrow> string \<Rightarrow> string \<Rightarrow> string option"
  getHash :: "nat \<Rightarrow> string"

text \<open>The fields of the controller, with the values its constructor gives them.\<close>

record 'k ImportController =
  ic_id :: string
  armored :: string
  popupPromise :: "string promise option"
  importPopup :: "string option"
  ic_keyringId :: string
  keyring :: "string option"
  ic_keys :: "'k read_result option"
  ic_key :: "'k option"
  ic_keyDetails :: "keyDetails option"
  importError :: bool
  invalidated :: bool
  rotation :: "bool option"

definition newImportController :: "string \<Rightarrow> 'k ImportController" where
  "newImportController i =
     \<lparr>ic_id = i, armored = [], popupPromise = None, importPopup = None, ic_keyringId = [],
      keyring = None, ic_keys = None, ic_key = None, ic_keyDetails = None,
      importError = False, invalidated = False, rotation = None\<rparr>"

definition closePopup ::
  "'k ImportController \<Rightarrow> 'ks world \<Rightarrow> 'k ImportController \<times> 'ks world" where
  "closePopup c w =
     (case importPopup c of
        Some p \<Rightarrow> (c\<lparr>importPopup := None\<rparr>, act [PopupClose p] w)
      | None \<Rightarrow> (c, w))"

definition importKeysCall ::
  "('k, 'ks) env \<Rightarrow> string \<Rightarrow> string \<Rightarrow> 'ks world \<Rightarrow> import_result \<times> 'ks world" where
  "importKeysCall E kr a w =
     (let (r, ks) = importKeys E (keystore w) kr a
      in (r, act [ImportKeysCall kr a] (w\<lparr>keystore := ks\<rparr>)))"

text \<open>
  \<^verbatim>\<open>onImportOk\<close>, the handler of \<^verbatim>\<open>key-import-dialog-ok\<close>. A failed import tells the dialog
  and sets \<^verbatim>\<open>importError\<close>; the popup stays and the promise stays as it is.
\<close>

definition onImportOk ::
  "('k, 'ks) env \<Rightarrow> 'k ImportController \<Rightarrow> 'ks world
     \<Rightarrow> unit completion \<times> 'k ImportController \<times> 'ks world" where
  "onImportOk E c w =
     (case keyring c of
        None \<Rightarrow> (Throws (Error TypeError), c, w)
      | Some kr \<Rightarrow>
          (let (importResult, w1) = importKeysCall E kr (armored c) w
           in if ir_type importResult = ''error''
              then (Returns (),
                    c\<lparr>importError := True\<rparr>,
                    act [Emit Self (import_error (ir_message importResult))] w1)
              else (let (c2, w2) = closePopup c w1
                    in case popupPromise c2 of
                         None \<Rightarrow> (Throws (Error TypeError), c2, w2)
                       | Some p \<Rightarrow>
                           (Returns (), c2\<lparr>popupPromise := Some (resolve ''IMPORTED'' p)\<rparr>, w2))))"

definition handleCancel ::
  "'k ImportController \<Rightarrow> 'ks world \<Rightarrow> unit completion \<times> 'k ImportController \<times> 'ks world" where
  "handleCancel c w =
     (let (c1, w1) = closePopup c w
      in case popupPromise c1 of
           None \<Rightarrow> (Throws (Error TypeError), c1, w1)
         | Some p \<Rightarrow>
             (Returns (),
              c1\<lparr>popupPromise := Some
                   (if invalidated c1 then resolve ''INVALIDATED'' p
                    else if importError c1
                    then reject \<lparr>message = ''An error occured during key import'',
                                 code = Some ''IMPORT_ERROR''\<rparr> p
                    else resolve ''REJECTED'' p)\<rparr>,
              w1))"

text \<open>
  \<^verbatim>\<open>openPopup\<close>: a new pending promise is stored, the window host opens the dialog, and the
  popup it yields is stored. The remove listener of the popup is \<open>onPopupRemoved\<close> below.
\<close>

definition openPopup ::
  "'k ImportController \<Rightarrow> 'ks world \<Rightarrow> string completion \<times> 'k ImportController \<times> 'ks world" where
  "openPopup c w =
     (let url = ''components/import-key/importKey.html?id='' @ ic_id c
      in (ReturnsPopupPromise,
          c\<lparr>popupPromise := Some Pending, importPopup := Some url\<rparr>,
          act [WindowsOpenPopup url] w))"

definition onPopupRemoved ::
  "'k ImportController \<Rightarrow> 'ks world \<Rightarrow> unit completion \<times> 'k ImportController \<times> 'ks world" where
  "onPopupRemoved c w = handleCancel (c\<lparr>importPopup := None\<rparr>) w"

definition updateKey ::
  "('k, 'ks) env \<Rightarrow> 'k ImportController \<Rightarrow> 'ks world \<Rightarrow> string \<Rightarrow> 'k \<Rightarrow> 'k
     \<Rightarrow> string completion \<times> 'k ImportController \<times> 'ks world" where
  "updateKey E c w fingerprint stockKey newKey =
     (let statusBefore = verifyPrimaryKey E stockKey;
          stockKeyClone = update E (cloneKey E stockKey) newKey;
          statusAfter = verifyPrimaryKey E stockKeyClone
      in if statusBefore \<noteq> statusAfter
         then openPopup (if statusAfter \<noteq> valid then c\<lparr>invalidated := True\<rparr> else c) w
         else (let beforeLastModified = getLastModifiedDate E stockKey;
                   afterLastModified = getLastModifiedDate E stockKeyClone
               in if beforeLastModified \<noteq> afterLastModified
                  then (case keyring c of
                          None \<Rightarrow> (Throws (Error TypeError), c, w)
                        | Some kr \<Rightarrow>
                            (let (importResult, w1) = importKeysCall E kr (armored c) w
                             in if ir_type importResult = ''error''
                                then (Throws (Error (ir_message importResult)), c, w1)
                                else (Returns ''UPDATED'', c, w1)))
                  else (Returns ''UPDATED'', c, w)))"

text \<open>
  The loop of \<^verbatim>\<open>importKey\<close> over \<^verbatim>\<open>this.key.users.entries()\<close>: a user without a user id (a
  user attribute packet) is skipped, the index counts every user.
\<close>

fun collectUsers :: "('k, 'ks) env \<Rightarrow> 'k \<Rightarrow> nat \<Rightarrow> user_id option list \<Rightarrow> uiUser list" where
  "collectUsers E k index [] = []"
| "collectUsers E k index (None # us) = collectUsers E k (Suc index) us"
| "collectUsers E k index (Some u # us) =
     parseUserId E \<lparr>ui_id = index, ui_userId = userid u, ui_name = name u, ui_email = email u,
                    ui_status = verifyUser E k index\<rparr>
     # collectUsers E k (Suc index) us"

text \<open>
  The \<^verbatim>\<open>try\<close> block of \<^verbatim>\<open>importKey\<close> ends in one of three ways: a \<^verbatim>\<open>throw\<close>, the
  \<^verbatim>\<open>return\<close> of the promise of \<^verbatim>\<open>updateKey\<close> (for the fingerprint, the first key that the
  keyring has for it, \<^verbatim>\<open>undefined\<close> when the array is empty, and the new key), or the
  \<^verbatim>\<open>return\<close> of the promise of \<^verbatim>\<open>openPopup\<close>.
\<close>

datatype 'k try_end =
    Thrown js_error
  | ReturnUpdateKey string "'k option" 'k
  | ReturnOpenPopup

definition importKeyBody ::
  "('k, 'ks) env \<Rightarrow> 'k ImportController \<Rightarrow> 'ks world \<Rightarrow> string \<Rightarrow> string \<Rightarrow> bool option
     \<Rightarrow> 'k try_end \<times> 'k ImportController \<times> 'ks world" where
  "importKeyBody E c w krId arm rot =
     (let c = c\<lparr>ic_keyringId := krId\<rparr>
      in case getKeyringById E (keystore w) krId of
           Inl m \<Rightarrow> (Thrown (Error m), c, w)
         | Inr kr \<Rightarrow>
         (let ks = readArmored E arm;
              c = c\<lparr>keyring := Some kr, armored := arm, rotation := rot, ic_keys := Some ks\<rparr>
          in case err ks of
               Some (m # _) \<Rightarrow> (Thrown (Error m), c, w)
             | Some [] \<Rightarrow> (Thrown (Error TypeError), c, w)
             | None \<Rightarrow>
             (let c = c\<lparr>ic_key := (case keys ks of [] \<Rightarrow> None | k # _ \<Rightarrow> Some k)\<rparr>;
                  w = (if length (keys ks) > 1
                       then act [ConsoleLog ''Multiple keys detected during key import, only first key is imported.''] w
                       else w)
              in case sanitizeKey E (ic_key c) of
                   Inl m \<Rightarrow> (Thrown (Error m), c, w)
                 | Inr None \<Rightarrow> (Thrown (Error ''Key is invalid.''), c\<lparr>ic_key := None\<rparr>, w)
                 | Inr (Some k) \<Rightarrow>
                 (let c = c\<lparr>ic_key := Some k\<rparr>
                  in if verifyPrimaryKey E k = invalid
                     then (Thrown (Error ''Key is invalid.''), c, w)
                     else
                     (let c = c\<lparr>armored := armor E k\<rparr>
                      in case mapKeys E (keys ks) of
                           [] \<Rightarrow> (Thrown (Error TypeError), c, w)
                         | d # _ \<Rightarrow>
                         (let c = c\<lparr>ic_keyDetails := Some d\<rparr>
                          in if kd_type d = ''private''
                             then (Thrown (Error ''Import of private keys not allowed.''), c, w)
                             else
                             (let users = collectUsers E k 0 (keyUsers E k);
                                  c = c\<lparr>ic_keyDetails := Some (d\<lparr>kd_users := users\<rparr>)\<rparr>;
                                  fingerprint = getFingerprint E k
                              in case getKeysForId E (keystore w) kr fingerprint of
                                   Some (stockKey # _) \<Rightarrow>
                                     (ReturnUpdateKey fingerprint (Some stockKey) k, c, w)
                                 | Some [] \<Rightarrow> (ReturnUpdateKey fingerprint None k, c, w)
                                 | None \<Rightarrow> (ReturnOpenPopup, c, w))))))))"

text \<open>
  \<^verbatim>\<open>importKey\<close>. The \<^verbatim>\<open>catch\<close> block wraps what the \<^verbatim>\<open>try\<close> block throws. The promises of
  \<^verbatim>\<open>updateKey\<close> and \<^verbatim>\<open>openPopup\<close> are returned without \<^verbatim>\<open>await\<close>, so an error of
  \<^verbatim>\<open>updateKey\<close> is not caught there and reaches the caller as it is; with \<^verbatim>\<open>undefined\<close> for
  the stored key that error is a TypeError.
\<close>

definition importKey ::
  "('k, 'ks) env \<Rightarrow> 'k ImportController \<Rightarrow> 'ks world \<Rightarrow> string \<Rightarrow> string \<Rightarrow> bool option
     \<Rightarrow> string completion \<times> 'k ImportController \<times> 'ks world" where
  "importKey E c w krId arm rot =
     (case importKeyBody E c w krId arm rot of
        (Thrown e, c', w') \<Rightarrow> (Throws (MvError (message e) ''IMPORT_ERROR''), c', w')
      | (ReturnUpdateKey fingerprint (Some stockKey) newKey, c', w') \<Rightarrow>
          updateKey E c' w' fingerprint stockKey newKey
      | (ReturnUpdateKey fingerprint None newKey, c', w') \<Rightarrow> (Throws (Error TypeError), c', w')
      | (ReturnOpenPopup, c', w') \<Rightarrow> openPopup c' w')"

text \<open>
  What reaches the controller while its dialog is open: the events of the dialog that the
  constructor registers handlers for, and the removal of the popup window.
\<close>

datatype dialog_event =
    key_import_dialog_init
  | key_import_dialog_ok
  | key_import_dialog_cancel
  | key_import_user_input string string
  | popup_removed

definition dispatch ::
  "('k, 'ks) env \<Rightarrow> dialog_event \<Rightarrow> 'k ImportController \<Rightarrow> 'ks world
     \<Rightarrow> unit completion \<times> 'k ImportController \<times> 'ks world" where
  "dispatch E ev c w =
     (case ev of
        key_import_dialog_init \<Rightarrow> (Returns (), c, act [Emit Self key_details] w)
      | key_import_dialog_ok \<Rightarrow> onImportOk E c w
      | key_import_dialog_cancel \<Rightarrow> handleCancel c w
      | key_import_user_input source type \<Rightarrow> (Returns (), c, act [UiLogPush source type] w)
      | popup_removed \<Rightarrow> onPopupRemoved c w)"

text \<open>
  Awaiting the promise of the popup: the dialog events that arrive are handled one after
  the other until the promise is settled. While it is pending and no event arrives the
  caller stays suspended, which is \<open>None\<close>. An exception in a handler ends that handler
  only.
\<close>

fun awaitPopup ::
  "('k, 'ks) env \<Rightarrow> dialog_event list \<Rightarrow> 'k ImportController \<Rightarrow> 'ks world
     \<Rightarrow> (string completion \<times> 'k ImportController \<times> 'ks world \<times> dialog_event list) option" where
  "awaitPopup E [] c w =
     (case popupPromise c of
        Some (Resolved v) \<Rightarrow> Some (Returns v, c, w, [])
      | Some (Rejected e) \<Rightarrow> Some (Throws e, c, w, [])
      | _ \<Rightarrow> None)"
| "awaitPopup E (ev # evs) c w =
     (case popupPromise c of
        Some (Resolved v) \<Rightarrow> Some (Returns v, c, w, ev # evs)
      | Some (Rejected e) \<Rightarrow> Some (Throws e, c, w, ev # evs)
      | _ \<Rightarrow> (case dispatch E ev c w of (r, c', w') \<Rightarrow> awaitPopup E evs c' w'))"

text \<open>
  \<^verbatim>\<open>lookupKey\<close>: a key that the registry finds is imported through a controller of the
  factory; a failure of that import is logged and swallowed.
\<close>

definition lookupKey ::
  "('k, 'ks) env \<Rightarrow> dialog_event list \<Rightarrow> 'ks world \<Rightarrow> string \<Rightarrow> string \<Rightarrow> bool option
     \<Rightarrow> ('ks world \<times> dialog_event list) option" where
  "lookupKey E evs w krId mail rot =
     (case registryLookup E (keystore w) mail krId of
        None \<Rightarrow> Some (w, evs)
      | Some arm \<Rightarrow>
          (let c = newImportController (getHash E (created w));
               w = w\<lparr>created := Suc (created w)\<rparr>
           in case importKey E c w krId arm rot of
                (Returns v, c', w') \<Rightarrow> Some (w', evs)
              | (Throws e, c', w') \<Rightarrow>
                  Some (act [ConsoleLog ''Key import after auto locate failed''] w', evs)
              | (ReturnsPopupPromise, c', w') \<Rightarrow>
                  (case awaitPopup E evs c' w' of
                     None \<Rightarrow> None
                   | Some (Throws e, c'', w'', evs') \<Rightarrow>
                       Some (act [ConsoleLog ''Key import after auto locate failed''] w'', evs')
                   | Some (r, c'', w'', evs') \<Rightarrow> Some (w'', evs'))))"

section \<open>EditorController\<close>

text \<open>\<^verbatim>\<open>this.options\<close>, as far as the methods below read it.\<close>

record editor_options =
  armoredDraft :: "string option"
  quotedMailIndent :: bool
  quotedMailHeader :: "string option"
  predefinedText :: "string option"
  keepAttachments :: bool
  reason :: "string option"

text \<open>A string in a condition: \<^verbatim>\<open>undefined\<close> and the empty string are falsy.\<close>

definition truthy :: "string option \<Rightarrow> bool" where
  "truthy v = (case v of None \<Rightarrow> False | Some s \<Rightarrow> s \<noteq> [])"

record recipient_key =
  fingerprint :: string
  rk_name :: string
  rk_email :: string

record plain_file =
  file_name :: string
  file_content :: string

record enc_file =
  ef_content :: string
  ef_size :: nat
  ef_name :: string

text \<open>The message of the \<^verbatim>\<open>editor-plaintext\<close> event, the \<^verbatim>\<open>options\<close> of \<^verbatim>\<open>onEditorPlaintext\<close>.\<close>

record plaintext_options =
  action :: string
  p_message :: string
  keysTo :: "recipient_key list"
  keysCc :: "recipient_key list"
  keysEx :: "recipient_key list"
  p_keys :: "recipient_key list"
  attachments :: "plain_file list"
  signMsg :: bool
  p_signKeyFpr :: "string option"
  noCache :: bool
  subject :: string
  p_pgpMIME :: bool

text \<open>What \<^verbatim>\<open>transferEncrypted\<close> resolves the promise of \<^verbatim>\<open>encrypt\<close> with.\<close>

record transfer =
  t_armored :: string
  t_encFiles :: "enc_file list option"
  t_subject :: string
  t_to :: "(string \<times> string) list"
  t_cc :: "(string \<times> string) list"

record EditorController =
  encryptPromise :: "transfer promise option"
  ec_keyringId :: string
  popup :: "string option"
  signKeyFpr :: "string option"
  pgpMIME :: bool
  options :: editor_options
  integration :: bool
  keyFprBuffer :: "string list option"
  editorCont :: bool

record signature =
  sig_valid :: "bool option"

datatype mime_part = message_part string | attachment_part string

record prefs =
  auto_add_primary :: bool
  password_cache :: bool

text \<open>
  A call of the engine (\<^verbatim>\<open>modules/pgpModel\<close>) either finishes with a result or an error, or
  first calls the \<^verbatim>\<open>unlockKey\<close> callback it was given, with the key to unlock, and goes on
  from what the callback yields.
\<close>

datatype ('k, 'r) engine_run =
    Finished "js_error + 'r"
  | AskUnlock 'k "js_error + 'k \<Rightarrow> js_error + 'r"

record 'k pwd_request =
  pr_key :: 'k
  pr_reason :: string
  pr_openPopup :: bool
  pr_noCache :: bool

text \<open>
  What \<^verbatim>\<open>pwdControl.unlockKey\<close> does: whether it calls \<^verbatim>\<open>beforePasswordRequest\<close> (with the id
  of the password dialog), and the unlocked key with its password, or the error.
\<close>

record 'k pwd_outcome =
  beforePasswordRequest :: "string option"
  unlocked :: "js_error + 'k \<times> string"

record encrypt_request =
  er_data :: js_data
  er_keyringId :: string
  encryptionKeyFprs :: "string list"
  signingKeyFpr :: "string option"
  er_noCache :: bool

record file_request =
  fr_file :: plain_file
  fr_armor :: bool
  fr_keyringId :: string
  fr_encryptionKeyFprs :: "string list"
  fr_signingKeyFpr :: "string option"
  fr_noCache :: bool

text \<open>
  The collaborators of the editor controller, again parameters: the keyring module
  (\<^verbatim>\<open>getKeyByAddress\<close> for one address, which yields the keys or \<^verbatim>\<open>false\<close>, here \<open>None\<close>;
  \<^verbatim>\<open>getDefaultKeyFpr\<close> of a keyring and of the module, which yield the empty string when
  there is no default key), the preferences, the MIME module (\<^verbatim>\<open>buildMail\<close>, which throws,
  returns \<^verbatim>\<open>null\<close> or returns the mail; \<^verbatim>\<open>parseMessage\<close>, which hands the parts to the
  handlers and may throw after that), the engine, the password controller, and the helpers
  \<^verbatim>\<open>mapError\<close>, \<^verbatim>\<open>normalizeArmored\<close>, \<^verbatim>\<open>sanitizeHTML\<close>, \<^verbatim>\<open>decodeURIComponent(escape(..))\<close>,
  \<^verbatim>\<open>extractFileExtension\<close>, \<^verbatim>\<open>btoa\<close> and \<^verbatim>\<open>byteCount\<close>.
\<close>

record ('k, 'ks) editor_env =
  getKeyByAddress :: "'ks \<Rightarrow> string \<Rightarrow> string \<Rightarrow> 'k list option"
  keyringDefaultKeyFpr :: "'ks \<Rightarrow> string \<Rightarrow> string"
  getDefaultKeyFpr :: "'ks \<Rightarrow> string \<Rightarrow> string"
  prefs :: prefs
  buildMail :: "plaintext_options \<Rightarrow> js_error + string option"
  parseMessage :: "string \<Rightarrow> mime_part list \<times> js_error option"
  modelEncryptMessage :: "encrypt_request \<Rightarrow> ('k, string) engine_run"
  modelEncryptFile :: "file_request \<Rightarrow> ('k, string) engine_run"
  modelSignMessage :: "string \<Rightarrow> string \<Rightarrow> string option \<Rightarrow> ('k, string) engine_run"
  modelDecryptMessage :: "string \<Rightarrow> string \<Rightarrow> bool \<Rightarrow> ('k, string \<times> signature list option) engine_run"
  modelVerifyMessage :: "string \<Rightarrow> string \<Rightarrow> js_error + string \<times> signature list option"
  pwdUnlockKey :: "'k pwd_request \<Rightarrow> 'k pwd_outcome"
  mapError :: "js_error \<Rightarrow> js_error"
  normalizeArmored :: "string \<Rightarrow> js_error + string"
  sanitizeHTML :: "string \<Rightarrow> string"
  decodeEscaped :: "string \<Rightarrow> js_error + string"
  extractFileExtension :: "string \<Rightarrow> string"
  btoa :: "string \<Rightarrow> string"
  byteCount :: "string \<Rightarrow> nat"

text \<open>
  Modelled from the spec: \<^verbatim>\<open>sortAndDeDup\<close> of \<^verbatim>\<open>lib/util\<close> is not among the sources. The
  specification has the final fingerprint list deduplicated and stably sorted, so the list
  is sorted and neighbours that are equal are dropped.
\<close>

definition sortAndDeDup :: "string list \<Rightarrow> string list" where
  "sortAndDeDup unordered = remdups_adj (sort unordered)"

text \<open>
  Modelled from the spec: \<^verbatim>\<open>mapAddressKeyMapToFpr\<close> of \<^verbatim>\<open>modules/key\<close> is not among the
  sources. The recipient key map takes each address to the fingerprints of its keys; an
  address without key keeps its \<^verbatim>\<open>false\<close>.
\<close>

definition mapAddressKeyMapToFpr ::
  "('k, 'ks) env \<Rightarrow> (string \<times> 'k list option) list \<Rightarrow> (string \<times> string list option) list" where
  "mapAddressKeyMapToFpr E keyMap =
     map (\<lambda>(address, ks). (address, map_option (map (getFingerprint E)) ks)) keyMap"

text \<open>
  \<^verbatim>\<open>getKeyByAddress\<close> for a list of addresses: an object with one property per address, in
  the order in which the addresses first occur.
\<close>

definition getKeyByAddressMap ::
  "('k, 'ks) editor_env \<Rightarrow> 'ks \<Rightarrow> string \<Rightarrow> string list \<Rightarrow> (string \<times> 'k list option) list" where
  "getKeyByAddressMap X ks krId addresses =
     foldl (\<lambda>m a. AList.update a (getKeyByAddress X ks krId a) m) [] addresses"

text \<open>
  \<^verbatim>\<open>lookupMissingKeys\<close>: the loop runs over the entries the map had when the loop began
  (the first list) and writes into the map (the second).
\<close>

fun lookupMissingKeys ::
  "('k, 'ks) env \<Rightarrow> ('k, 'ks) editor_env \<Rightarrow> string \<Rightarrow> (string \<times> 'k list option) list
     \<Rightarrow> (string \<times> 'k list option) list \<Rightarrow> 'ks world \<Rightarrow> dialog_event list
     \<Rightarrow> ((string \<times> 'k list option) list \<times> 'ks world \<times> dialog_event list) option" where
  "lookupMissingKeys E X krId [] keyMap w evs = Some (keyMap, w, evs)"
| "lookupMissingKeys E X krId ((mail, ks) # entries) keyMap w evs =
     (if ks = None
      then (case lookupKey E evs w krId mail None of
              None \<Rightarrow> None
            | Some (w1, evs1) \<Rightarrow>
                lookupMissingKeys E X krId entries
                  (AList.update mail (getKeyByAddress X (keystore w1) krId mail) keyMap) w1 evs1)
      else lookupMissingKeys E X krId entries keyMap w evs)"

record encrypt_msg =
  em_keyringId :: string
  recipients :: "string list"

text \<open>
  \<^verbatim>\<open>onEditorContainerEncrypt\<close>. After the check every recipient has a list of fingerprints
  in the map, so the last case of the lookup inside \<^verbatim>\<open>forEach\<close> is not reached.
\<close>

definition onEditorContainerEncrypt ::
  "('k, 'ks) env \<Rightarrow> ('k, 'ks) editor_env \<Rightarrow> EditorController \<Rightarrow> 'ks world \<Rightarrow> dialog_event list
     \<Rightarrow> encrypt_msg \<Rightarrow> (EditorController \<times> 'ks world \<times> dialog_event list) option" where
  "onEditorContainerEncrypt E X s w evs msg =
     (let s = s\<lparr>pgpMIME := True, ec_keyringId := em_keyringId msg\<rparr>;
          keyMap = getKeyByAddressMap X (keystore w) (ec_keyringId s) (recipients msg)
      in case lookupMissingKeys E X (ec_keyringId s) keyMap keyMap w evs of
           None \<Rightarrow> None
         | Some (keyMap, w, evs) \<Rightarrow>
             (let keyFprMap = mapAddressKeyMapToFpr E keyMap
              in if \<exists>v \<in> set (map snd keyFprMap). v = None
                 then Some (s,
                            act [Emit EditorCont (error_message
                                   \<lparr>message = ''No valid encryption key for recipient address'',
                                    code = Some ''NO_KEY_FOR_RECIPIENT''\<rparr>)] w,
                            evs)
                 else (let keyFprs = concat (map (\<lambda>recipient.
                                         case map_of keyFprMap recipient of
                                           Some (Some fprs) \<Rightarrow> fprs
                                         | _ \<Rightarrow> []) (recipients msg));
                           s = s\<lparr>keyFprBuffer := Some (sortAndDeDup keyFprs)\<rparr>
                       in Some (s,
                                act [SyncPublicKeysCall (ec_keyringId s) (sortAndDeDup keyFprs),
                                     Emit Editor (get_plaintext ''encrypt'' False)] w,
                                evs))))"

text \<open>
  \<^verbatim>\<open>unlockKey\<close> of the controller. \<^verbatim>\<open>reason\<close> and \<^verbatim>\<open>sync\<close> have the defaults of the
  parameter list.
\<close>

record 'k unlock_options =
  uo_key :: 'k
  uo_noCache :: bool
  uo_reason :: "string option"
  uo_sync :: "bool option"

definition unlockKey ::
  "('k, 'ks) editor_env \<Rightarrow> EditorController \<Rightarrow> 'k unlock_options \<Rightarrow> 'ks world
     \<Rightarrow> (js_error + 'k) \<times> 'ks world" where
  "unlockKey X s opts w =
     (let reason = (case uo_reason opts of None \<Rightarrow> ''PWD_DIALOG_REASON_DECRYPT'' | Some r \<Rightarrow> r);
          sync = (case uo_sync opts of None \<Rightarrow> True | Some b \<Rightarrow> b);
          openPopup = (popup s = None);
          out = pwdUnlockKey X \<lparr>pr_key = uo_key opts, pr_reason = reason,
                                pr_openPopup = openPopup, pr_noCache = uo_noCache opts\<rparr>;
          w1 = (case beforePasswordRequest out of
                  Some i \<Rightarrow> if popup s \<noteq> None then act [Emit Editor (show_pwd_dialog i)] w else w
                | None \<Rightarrow> w)
      in case unlocked out of
           Inl e \<Rightarrow> (Inl e, w1)
         | Inr (k, password) \<Rightarrow>
             (Inr k, act (Emit Editor encrypt_in_progress # (if sync then [TriggerSyncCall] else [])) w1))"

text \<open>
  Running a call of the engine with the callback it was given; without a callback
  (\<^verbatim>\<open>unlockKey\<close> is \<^verbatim>\<open>undefined\<close>) the call of the callback is a TypeError inside the engine.
\<close>

definition runEngine ::
  "('k \<Rightarrow> 'ks world \<Rightarrow> (js_error + 'k) \<times> 'ks world) option \<Rightarrow> ('k, 'r) engine_run \<Rightarrow> 'ks world
     \<Rightarrow> (js_error + 'r) \<times> 'ks world" where
  "runEngine callback run w =
     (case run of
        Finished r \<Rightarrow> (r, w)
      | AskUnlock k continue \<Rightarrow>
          (case callback of
             None \<Rightarrow> (continue (Inl (Error TypeError)), w)
           | Some cb \<Rightarrow> (case cb k w of (r, w1) \<Rightarrow> (continue r, w1))))"

text \<open>
  \<^verbatim>\<open>getPublicKeyFprs\<close>. When the buffer is set, \<^verbatim>\<open>keyFprs\<close> is the buffer itself, so the
  \<^verbatim>\<open>push\<close> of the default key is a push onto \<^verbatim>\<open>this.keyFprBuffer\<close>.
\<close>

definition getPublicKeyFprs ::
  "('k, 'ks) env \<Rightarrow> ('k, 'ks) editor_env \<Rightarrow> EditorController \<Rightarrow> 'ks world \<Rightarrow> recipient_key list
     \<Rightarrow> (js_error + string list) \<times> EditorController" where
  "getPublicKeyFprs E X s w ks =
     (let keyFprs = (case keyFprBuffer s of Some buffer \<Rightarrow> buffer | None \<Rightarrow> map fingerprint ks)
      in if auto_add_primary (prefs X)
         then (case getKeyringById E (keystore w) (ec_keyringId s) of
                 Inl m \<Rightarrow> (Inl (Error m), s)
               | Inr kr \<Rightarrow>
                   (let defaultKeyFpr = keyringDefaultKeyFpr X (keystore w) kr
                    in if defaultKeyFpr \<noteq> []
                       then (Inr (sortAndDeDup (keyFprs @ [defaultKeyFpr])),
                             if keyFprBuffer s = None then s
                             else s\<lparr>keyFprBuffer := Some (keyFprs @ [defaultKeyFpr])\<rparr>)
                       else (Inr (sortAndDeDup keyFprs), s)))
         else (Inr (sortAndDeDup keyFprs), s))"

definition encryptMessage ::
  "('k, 'ks) editor_env \<Rightarrow> EditorController \<Rightarrow> 'ks world \<Rightarrow> js_data \<Rightarrow> string list \<Rightarrow> string option
     \<Rightarrow> ('k \<Rightarrow> 'ks world \<Rightarrow> (js_error + 'k) \<times> 'ks world) option \<Rightarrow> bool
     \<Rightarrow> (js_error + string) \<times> 'ks world" where
  "encryptMessage X s w data keyFprs signKeyFpr' unlock noCache' =
     runEngine unlock
       (modelEncryptMessage X \<lparr>er_data = data, er_keyringId = ec_keyringId s,
                               encryptionKeyFprs = keyFprs, signingKeyFpr = signKeyFpr',
                               er_noCache = noCache'\<rparr>)
       (act [Emit Editor encrypt_in_progress, EncryptMessageCall data keyFprs signKeyFpr'] w)"

text \<open>
  \<^verbatim>\<open>encryptFiles\<close>: every file is handed to the engine; \<^verbatim>\<open>Promise.all\<close> yields the
  encrypted files when all calls succeed and otherwise rejects with one of the errors
  (here the error of the first file that fails).
\<close>

fun encryptEach ::
  "('k, 'ks) editor_env \<Rightarrow> EditorController \<Rightarrow> string list \<Rightarrow> string option
     \<Rightarrow> ('k \<Rightarrow> 'ks world \<Rightarrow> (js_error + 'k) \<times> 'ks world) option \<Rightarrow> bool
     \<Rightarrow> plain_file list \<Rightarrow> 'ks world \<Rightarrow> (js_error + enc_file) list \<times> 'ks world" where
  "encryptEach X s keyFprs signKeyFpr' unlock noCache' [] w = ([], w)"
| "encryptEach X s keyFprs signKeyFpr' unlock noCache' (file # files) w =
     (let fileExt = extractFileExtension X (file_name file);
          (r, w1) = runEngine unlock
                      (modelEncryptFile X \<lparr>fr_file = file, fr_armor = (fileExt = ''txt''),
                                            fr_keyringId = ec_keyringId s,
                                            fr_encryptionKeyFprs = keyFprs,
                                            fr_signingKeyFpr = signKeyFpr', fr_noCache = noCache'\<rparr>)
                      (act [EncryptFileCall (file_name file) keyFprs signKeyFpr'] w);
          out = (case r of
                   Inl e \<Rightarrow> Inl e
                 | Inr encrypted \<Rightarrow>
                     (let base64encoded = btoa X encrypted
                      in Inr \<lparr>ef_content = ''data:application/octet-stream;base64,'' @ base64encoded,
                              ef_size = byteCount X base64encoded,
                              ef_name = (if fileExt = ''txt'' then file_name file @ ''.asc''
                                         else file_name file @ ''.gpg'')\<rparr>));
          (rest, w2) = encryptEach X s keyFprs signKeyFpr' unlock noCache' files w1
      in (out # rest, w2))"

fun promiseAll :: "(js_error + 'a) list \<Rightarrow> js_error + 'a list" where
  "promiseAll [] = Inr []"
| "promiseAll (Inl e # rs) = Inl e"
| "promiseAll (Inr v # rs) = (case promiseAll rs of Inl e \<Rightarrow> Inl e | Inr vs \<Rightarrow> Inr (v # vs))"

definition encryptFiles ::
  "('k, 'ks) editor_env \<Rightarrow> EditorController \<Rightarrow> 'ks world \<Rightarrow> plain_file list \<Rightarrow> string list
     \<Rightarrow> string option \<Rightarrow> ('k \<Rightarrow> 'ks world \<Rightarrow> (js_error + 'k) \<times> 'ks world) option \<Rightarrow> bool
     \<Rightarrow> (js_error + enc_file list) \<times> 'ks world" where
  "encryptFiles X s w files keyFprs signKeyFpr' unlock noCache' =
     (let (rs, w1) = encryptEach X s keyFprs signKeyFpr' unlock noCache' files
                       (act [Emit Editor encrypt_in_progress] w)
      in (promiseAll rs, w1))"

definition signMessage ::
  "('k, 'ks) editor_env \<Rightarrow> EditorController \<Rightarrow> 'ks world \<Rightarrow> string \<Rightarrow> string option
     \<Rightarrow> (js_error + string) \<times> 'ks world" where
  "signMessage X s w data signKeyFpr' =
     runEngine
       (Some (\<lambda>k. unlockKey X s \<lparr>uo_key = k, uo_noCache = False,
                                  uo_reason = Some ''PWD_DIALOG_REASON_SIGN'', uo_sync = None\<rparr>))
       (modelSignMessage X data (ec_keyringId s) signKeyFpr')
       (act [SignMessageCall data signKeyFpr'] w)"

text \<open>
  \<^verbatim>\<open>signAndEncrypt\<close>, in two parts. \<open>encryptWith\<close> is the branch for the action
  \<^verbatim>\<open>encrypt\<close> from the choice of the signing key on, with the fingerprints that
  \<^verbatim>\<open>getPublicKeyFprs\<close> returned. The variable \<^verbatim>\<open>data\<close> is declared without a value: it is
  \<^verbatim>\<open>undefined\<close> until \<^verbatim>\<open>buildMail\<close> has returned, and it stays so when \<^verbatim>\<open>buildMail\<close> throws,
  because the \<^verbatim>\<open>catch\<close> block only reports the error to the container. The error thrown
  for a \<^verbatim>\<open>null\<close> is made without a code. The result is \<^verbatim>\<open>{armored, encFiles}\<close>, or
  \<^verbatim>\<open>undefined\<close> (\<open>None\<close>) for an action that is neither \<^verbatim>\<open>encrypt\<close> nor \<^verbatim>\<open>sign\<close>.
\<close>

definition encryptWith ::
  "('k, 'ks) editor_env \<Rightarrow> EditorController \<Rightarrow> 'ks world \<Rightarrow> plaintext_options \<Rightarrow> string list
     \<Rightarrow> (js_error + (string \<times> enc_file list option) option) \<times> 'ks world" where
  "encryptWith X s1 w opts keyFprs =
     (let signKeyFpr' =
            (if signMsg opts
             then (if truthy (p_signKeyFpr opts) then p_signKeyFpr opts
                   else Some (getDefaultKeyFpr X (keystore w) (ec_keyringId s1)))
             else None)
      in if signMsg opts \<and> \<not> truthy signKeyFpr'
         then (Inl (MvError ''No private key found to sign this message.''
                      ''NO_DEFAULT_KEY_FOUND''), w)
         else
         (let unlock =
                (if signMsg opts
                 then Some (\<lambda>k. unlockKey X s1
                        \<lparr>uo_key = k, uo_noCache = noCache opts,
                         uo_reason = Some (if truthy (reason (options s1))
                                           then the (reason (options s1))
                                           else ''PWD_DIALOG_REASON_SIGN''),
                         uo_sync = Some (\<not> password_cache (prefs X))\<rparr>)
                 else None);
              opts1 = opts\<lparr>p_pgpMIME := pgpMIME s1\<rparr>;
              files = (if integration s1 \<and> \<not> pgpMIME s1 then attachments opts1 else []);
              opts2 = (if integration s1 \<and> \<not> pgpMIME s1
                       then opts1\<lparr>attachments := []\<rparr> else opts1);
              (data, w1) =
                (case buildMail X opts2 of
                   Inl error \<Rightarrow>
                     (Undefined,
                      if editorCont s1
                      then act [Emit EditorCont (error_message (mapError X error))] w
                      else w)
                 | Inr None \<Rightarrow> (Null, w)
                 | Inr (Some mail) \<Rightarrow> (Data mail, w))
          in if data = Null
             then (Inl (Error ''MIME building failed.''), w1)
             else (case encryptMessage X s1 w1 data keyFprs signKeyFpr' unlock (noCache opts) of
                     (Inl e, w2) \<Rightarrow> (Inl e, w2)
                   | (Inr armored', w2) \<Rightarrow>
                       if \<not> pgpMIME s1 \<and> files \<noteq> []
                       then (case encryptFiles X s1 w2 files keyFprs signKeyFpr' unlock
                                    (noCache opts) of
                               (Inl e, w3) \<Rightarrow> (Inl e, w3)
                             | (Inr encFiles, w3) \<Rightarrow>
                                 (Inr (Some (armored', Some encFiles)), w3))
                       else (Inr (Some (armored', Some [])), w2))))"

definition signAndEncrypt ::
  "('k, 'ks) env \<Rightarrow> ('k, 'ks) editor_env \<Rightarrow> EditorController \<Rightarrow> 'ks world \<Rightarrow> plaintext_options
     \<Rightarrow> (js_error + (string \<times> enc_file list option) option) \<times> EditorController \<times> 'ks world" where
  "signAndEncrypt E X s w opts =
     (if action opts = ''encrypt''
      then (case getPublicKeyFprs E X s w (p_keys opts) of
              (Inl e, s1) \<Rightarrow> (Inl e, s1, w)
            | (Inr keyFprs, s1) \<Rightarrow>
                (case encryptWith X s1 w opts keyFprs of (r, w') \<Rightarrow> (r, s1, w')))
      else if action opts = ''sign''
      then (case signMessage X s w (p_message opts) (signKeyFpr s) of
              (Inl e, w1) \<Rightarrow> (Inl e, s, w1)
            | (Inr armored', w1) \<Rightarrow> (Inr (Some (armored', None)), s, w1))
      else (Inr None, s, w))"

text \<open>The next three definitions yield the error they throw, if any, with the new state.\<close>

definition onEditorClose ::
  "EditorController \<Rightarrow> 'ks world \<Rightarrow> bool \<Rightarrow> js_error option \<times> EditorController \<times> 'ks world" where
  "onEditorClose s w cancel =
     (case popup s of
        None \<Rightarrow> (None, s, w)
      | Some p \<Rightarrow>
          (let s1 = s\<lparr>popup := None\<rparr>; w1 = act [PopupClose p] w
           in if cancel
              then (case encryptPromise s1 of
                      None \<Rightarrow> (Some (Error TypeError), s1, w1)
                    | Some pr \<Rightarrow>
                        (None,
                         s1\<lparr>encryptPromise := Some
                              (reject (MvError ''Editor dialog canceled.'' ''EDITOR_DIALOG_CANCEL'') pr)\<rparr>,
                         w1))
              else (None, s1, w1)))"

definition transferEncrypted ::
  "EditorController \<Rightarrow> 'ks world \<Rightarrow> string \<Rightarrow> enc_file list option \<Rightarrow> string
     \<Rightarrow> recipient_key list \<Rightarrow> recipient_key list
     \<Rightarrow> js_error option \<times> EditorController \<times> 'ks world" where
  "transferEncrypted s w armored' encFiles subject' to cc =
     (if editorCont s
      then (None, s, act [Emit EditorCont (encrypted_message armored')] w)
      else (case encryptPromise s of
              None \<Rightarrow> (Some (Error TypeError), s, w)
            | Some pr \<Rightarrow>
                (None,
                 s\<lparr>encryptPromise := Some
                      (resolve \<lparr>t_armored = armored', t_encFiles = encFiles, t_subject = subject',
                               t_to = map (\<lambda>k. (rk_name k, rk_email k)) to,
                               t_cc = map (\<lambda>k. (rk_name k, rk_email k)) cc\<rparr> pr)\<rparr>,
                 w)))"

definition plaintextTry ::
  "('k, 'ks) env \<Rightarrow> ('k, 'ks) editor_env \<Rightarrow> EditorController \<Rightarrow> 'ks world \<Rightarrow> plaintext_options
     \<Rightarrow> js_error option \<times> EditorController \<times> 'ks world" where
  "plaintextTry E X s w opts =
     (case signAndEncrypt E X s w opts of
        (Inl e, s1, w1) \<Rightarrow> (Some e, s1, w1)
      | (Inr None, s1, w1) \<Rightarrow> (Some (Error TypeError), s1, w1)
      | (Inr (Some (armored', encFiles)), s1, w1) \<Rightarrow>
          (let w2 = act [Emit Editor encrypt_end] w1;
               (e, s2, w3) = (if \<not> integration s1 then onEditorClose s1 w2 False
                              else (None, s1, w2))
           in case e of
                Some x \<Rightarrow> (Some x, s2, w3)
              | None \<Rightarrow>
                  transferEncrypted s2 w3 armored' encFiles (subject opts) (keysTo opts)
                    (keysCc opts)))"

text \<open>
  \<^verbatim>\<open>onEditorPlaintext\<close>: \<open>plaintextTry\<close> is its \<^verbatim>\<open>try\<close> block, the rest its \<^verbatim>\<open>catch\<close> block.
\<close>

definition onEditorPlaintext ::
  "('k, 'ks) env \<Rightarrow> ('k, 'ks) editor_env \<Rightarrow> EditorController \<Rightarrow> 'ks world \<Rightarrow> plaintext_options
     \<Rightarrow> EditorController \<times> 'ks world" where
  "onEditorPlaintext E X s w options' =
     (let opts = options'\<lparr>p_keys := keysTo options' @ keysCc options' @ keysEx options'\<rparr>
      in case plaintextTry E X s w opts of
           (None, s1, w1) \<Rightarrow> (s1, w1)
         | (Some err', s1, w1) \<Rightarrow>
             if popup s1 \<noteq> None \<and> code err' = Some ''PWD_DIALOG_CANCEL''
             then (s1, act [Emit Self hide_pwd_dialog] w1)
             else (s1,
                   act ([ConsoleLog (message err'),
                         Emit Editor (error_message (mapError X err'))]
                        @ (if editorCont s1
                           then [Emit EditorCont (error_message (mapError X err'))] else [])
                        @ [Emit Editor encrypt_failed]) w1))"

text \<open>
  The two tests of \<^verbatim>\<open>decryptArmored\<close>, \<^verbatim>\<open>/BEGIN\sPGP\sMESSAGE/\<close> and
  \<^verbatim>\<open>/BEGIN\sPGP\sSIGNED\sMESSAGE/\<close>: a pattern is a list of characters and white space
  classes, and \<^verbatim>\<open>test\<close> looks for it at every position. A \<^typ>\<open>char\<close> is a byte, so the
  white space class is the ASCII part of \<^verbatim>\<open>\s\<close>.
\<close>

datatype pat = Chr char | WhiteSpace

definition isWhiteSpace :: "char \<Rightarrow> bool" where
  "isWhiteSpace ch = (ch \<in> {CHR 0x09, CHR 0x0A, CHR 0x0B, CHR 0x0C, CHR 0x0D, CHR 0x20})"

fun matchHere :: "pat list \<Rightarrow> string \<Rightarrow> bool" where
  "matchHere [] str = True"
| "matchHere (p # ps) [] = False"
| "matchHere (Chr ch # ps) (x # xs) = (x = ch \<and> matchHere ps xs)"
| "matchHere (WhiteSpace # ps) (x # xs) = (isWhiteSpace x \<and> matchHere ps xs)"

fun test :: "pat list \<Rightarrow> string \<Rightarrow> bool" where
  "test ps [] = matchHere ps []"
| "test ps (x # xs) = (matchHere ps (x # xs) \<or> test ps xs)"

definition BEGIN_PGP_MESSAGE :: "pat list" where
  "BEGIN_PGP_MESSAGE =
     map Chr ''BEGIN'' @ [WhiteSpace] @ map Chr ''PGP'' @ [WhiteSpace] @ map Chr ''MESSAGE''"

definition BEGIN_PGP_SIGNED_MESSAGE :: "pat list" where
  "BEGIN_PGP_SIGNED_MESSAGE =
     map Chr ''BEGIN'' @ [WhiteSpace] @ map Chr ''PGP'' @ [WhiteSpace] @ map Chr ''SIGNED''
     @ [WhiteSpace] @ map Chr ''MESSAGE''"

text \<open>
  \<^verbatim>\<open>msg.replace(/^(.|\n)/gm, '> $&')\<close>: at the start of every line that is followed by a
  character other than a carriage return, \<^verbatim>\<open>> \<close> is put in front of that character. The
  flag says whether the position is the start of a line.
\<close>

fun quoteLines :: "bool \<Rightarrow> string \<Rightarrow> string" where
  "quoteLines lineStart [] = []"
| "quoteLines lineStart (x # xs) =
     (if lineStart \<and> x \<noteq> CHR 0x0D then ''> '' @ [x] else [x])
     @ quoteLines (x = CHR 0x0A \<or> x = CHR 0x0D) xs"

text \<open>The handlers that \<^verbatim>\<open>decryptArmored\<close> gives to \<^verbatim>\<open>parseMessage\<close>.\<close>

definition onMessage :: "editor_options \<Rightarrow> string \<Rightarrow> action list" where
  "onMessage opts msg =
     (let msg1 = (if quotedMailIndent opts then quoteLines True msg else msg);
          msg2 = (if truthy (quotedMailHeader opts)
                  then the (quotedMailHeader opts) @ [CHR 0x0A] @ msg1 else msg1);
          msg3 = (if quotedMailIndent opts \<or> truthy (quotedMailHeader opts)
                  then [CHR 0x0A, CHR 0x0A] @ msg2 else msg2);
          msg4 = (if truthy (predefinedText opts)
                  then msg3 @ [CHR 0x0A, CHR 0x0A] @ the (predefinedText opts) else msg3)
      in [Emit Editor (set_text msg4)])"

definition onAttachment :: "editor_options \<Rightarrow> string \<Rightarrow> action list" where
  "onAttachment opts part = (if keepAttachments opts then [Emit Editor (set_attachment part)] else [])"

definition handlers :: "editor_options \<Rightarrow> mime_part \<Rightarrow> action list" where
  "handlers opts part =
     (case part of message_part msg \<Rightarrow> onMessage opts msg
                 | attachment_part a \<Rightarrow> onAttachment opts a)"

text \<open>
  The \<^verbatim>\<open>unlockKey\<close> of \<^verbatim>\<open>decryptArmored\<close>: the password dialog inside the editor popup is
  hidden again once the key is unlocked.
\<close>

definition decryptUnlock ::
  "('k, 'ks) editor_env \<Rightarrow> EditorController \<Rightarrow> 'k \<Rightarrow> 'ks world \<Rightarrow> (js_error + 'k) \<times> 'ks world" where
  "decryptUnlock X s k w =
     (case unlockKey X s \<lparr>uo_key = k, uo_noCache = False, uo_reason = None, uo_sync = None\<rparr> w of
        (Inl e, w1) \<Rightarrow> (Inl e, w1)
      | (Inr result, w1) \<Rightarrow>
          (Inr result, if popup s \<noteq> None then act [Emit Editor hide_pwd_dialog] w1 else w1))"

text \<open>The first part of the \<^verbatim>\<open>try\<close> block: how \<^verbatim>\<open>data\<close> and \<^verbatim>\<open>signatures\<close> get their values.\<close>

definition decryptData ::
  "('k, 'ks) editor_env \<Rightarrow> EditorController \<Rightarrow> 'ks world \<Rightarrow> string
     \<Rightarrow> (js_error + string \<times> signature list option) \<times> 'ks world" where
  "decryptData X s w armored' =
     (if test BEGIN_PGP_MESSAGE armored'
      then (case normalizeArmored X armored' of
              Inl e \<Rightarrow> (Inl e, w)
            | Inr normalized \<Rightarrow>
                runEngine (Some (decryptUnlock X s))
                  (modelDecryptMessage X normalized (ec_keyringId s)
                     (truthy (armoredDraft (options s))))
                  w)
      else if test BEGIN_PGP_SIGNED_MESSAGE armored'
      then (case modelVerifyMessage X armored' (ec_keyringId s) of
              Inl e \<Rightarrow> (Inl e, w)
            | Inr (data, signatures) \<Rightarrow>
                (case decodeEscaped X data of
                   Inl e \<Rightarrow> (Inl e, w)
                 | Inr data' \<Rightarrow> (Inr (data', signatures), w)))
      else (Inr (sanitizeHTML X armored', Some []), w))"

text \<open>\<^verbatim>\<open>signatures && signatures.length === 1 && signatures[0].valid\<close>.\<close>

definition oneValidSignature :: "signature list option \<Rightarrow> bool" where
  "oneValidSignature signatures =
     (case signatures of
        Some [sg] \<Rightarrow> sig_valid sg = Some True
      | _ \<Rightarrow> False)"

text \<open>The \<^verbatim>\<open>try\<close> block of \<^verbatim>\<open>decryptArmored\<close>: the error it throws, if any, and the new world.\<close>

definition decryptTry ::
  "('k, 'ks) editor_env \<Rightarrow> EditorController \<Rightarrow> 'ks world \<Rightarrow> string \<Rightarrow> js_error option \<times> 'ks world" where
  "decryptTry X s w armored' =
     (case decryptData X s w armored' of
        (Inl e, w1) \<Rightarrow> (Some e, w1)
      | (Inr (data, signatures), w1) \<Rightarrow>
          if truthy (armoredDraft (options s)) \<and> \<not> oneValidSignature signatures
          then (Some \<lparr>message = ''Restoring of the draft failed due to invalid signature.'',
                      code = None\<rparr>, w1)
          else (case parseMessage X data of
                  (parts, Some e) \<Rightarrow> (Some e, act (concat (map (handlers (options s)) parts)) w1)
                | (parts, None) \<Rightarrow>
                    (None, act (concat (map (handlers (options s)) parts)
                                @ [Emit Editor decrypt_end]) w1)))"

definition decryptArmored ::
  "('k, 'ks) editor_env \<Rightarrow> EditorController \<Rightarrow> 'ks world \<Rightarrow> string \<Rightarrow> 'ks world" where
  "decryptArmored X s w armored' =
     (case decryptTry X s w armored' of
        (Some error, w1) \<Rightarrow> act [Emit Editor (decrypt_failed (mapError X error))] w1
      | (None, w1) \<Rightarrow> w1)"

section \<open>Notions used in the statements\<close>

text \<open>
  The hypothetical merge of \<^verbatim>\<open>updateKey\<close> and the two comparisons it makes, under the names
  the statements below use.
\<close>

definition hypotheticalMerge :: "('k, 'ks) env \<Rightarrow> 'k \<Rightarrow> 'k \<Rightarrow> 'k" where
  "hypotheticalMerge E stockKey newKey = update E (cloneKey E stockKey) newKey"

definition validityChanges :: "('k, 'ks) env \<Rightarrow> 'k \<Rightarrow> 'k \<Rightarrow> bool" where
  "validityChanges E stockKey newKey =
     (verifyPrimaryKey E stockKey \<noteq> verifyPrimaryKey E (hypotheticalMerge E stockKey newKey))"

definition lastModifiedChanges :: "('k, 'ks) env \<Rightarrow> 'k \<Rightarrow> 'k \<Rightarrow> bool" where
  "lastModifiedChanges E stockKey newKey =
     (getLastModifiedDate E stockKey
        \<noteq> getLastModifiedDate E (hypotheticalMerge E stockKey newKey))"

text \<open>
  A call opens the confirmation popup: it returns the promise of the popup, pending, the
  window host was asked for the dialog of this controller, and the keyrings are as before.
\<close>

definition opensConfirmation ::
  "'k ImportController \<Rightarrow> 'ks world \<Rightarrow> string completion \<times> 'k ImportController \<times> 'ks world
     \<Rightarrow> bool" where
  "opensConfirmation c w res =
     (case res of (r, c', w') \<Rightarrow>
        r = ReturnsPopupPromise \<and> popupPromise c' = Some Pending \<and> importPopup c' \<noteq> None \<and>
        keystore w' = keystore w \<and>
        trace w' = trace w @ [WindowsOpenPopup (''components/import-key/importKey.html?id='' @ ic_id c)])"

text \<open>
  A call commits silently: the one thing it does is the call of \<^verbatim>\<open>importKeys\<close> with the
  armored key of the controller, and the keyrings are what that call leaves.
\<close>

definition commitsSilently ::
  "('k, 'ks) env \<Rightarrow> string \<Rightarrow> 'k ImportController \<Rightarrow> 'ks world
     \<Rightarrow> string completion \<times> 'k ImportController \<times> 'ks world \<Rightarrow> bool" where
  "commitsSilently E kr c w res =
     (case res of (r, c', w') \<Rightarrow>
        keystore w' = snd (importKeys E (keystore w) kr (armored c)) \<and>
        trace w' = trace w @ [ImportKeysCall kr (armored c)])"

text \<open>
  The key that \<^verbatim>\<open>importKey\<close> takes from the armored text is a private key: the details of
  the first parsed key have the type \<^verbatim>\<open>private\<close>.
\<close>

definition parsedKeyIsPrivate :: "('k, 'ks) env \<Rightarrow> string \<Rightarrow> bool" where
  "parsedKeyIsPrivate E arm =
     (case mapKeys E (keys (readArmored E arm)) of
        [] \<Rightarrow> False
      | d # _ \<Rightarrow> kd_type d = ''private'')"

text \<open>
  The armored text passes the checks that \<^verbatim>\<open>importKey\<close> makes before it looks at the type
  of the key: the keyring exists, the text parses without error, \<^verbatim>\<open>sanitizeKey\<close> keeps the
  key, and its primary key is not invalid.
\<close>

definition passesKeyChecks :: "('k, 'ks) env \<Rightarrow> 'ks \<Rightarrow> string \<Rightarrow> string \<Rightarrow> bool" where
  "passesKeyChecks E ks krId arm =
     (case getKeyringById E ks krId of
        Inl m \<Rightarrow> False
      | Inr kr \<Rightarrow>
          err (readArmored E arm) = None \<and>
          (case sanitizeKey E (case keys (readArmored E arm) of [] \<Rightarrow> None | k # _ \<Rightarrow> Some k) of
             Inr (Some k) \<Rightarrow> verifyPrimaryKey E k \<noteq> invalid
           | _ \<Rightarrow> False))"

section \<open>A small instance of the collaborators\<close>

text \<open>
  For running the controllers on examples: a key is a record of what the controllers ask
  about it, a keyring is a list of keys, an armored text is looked up in a table, and the
  merge of a stored key with a candidate takes the state of the candidate.
\<close>

record okey =
  armoredText :: string
  owner :: string
  fpr :: string
  status :: keyStatus
  modified :: int
  kind :: string

definition sampleRead :: "okey list \<Rightarrow> string \<Rightarrow> okey read_result" where
  "sampleRead table a =
     (case filter (\<lambda>k. armoredText k = a) table of
        [] \<Rightarrow> \<lparr>keys = [], err = Some [''Misformed armored text'']\<rparr>
      | k # _ \<Rightarrow> \<lparr>keys = [k], err = None\<rparr>)"

definition sampleImport :: "okey list \<Rightarrow> okey list \<Rightarrow> string \<Rightarrow> string \<Rightarrow> import_result \<times> okey list" where
  "sampleImport table ks kr a =
     (case filter (\<lambda>k. armoredText k = a) table of
        [] \<Rightarrow> (\<lparr>ir_type = ''error'', ir_message = ''Unable to read one public key''\<rparr>, ks)
      | k # _ \<Rightarrow> (\<lparr>ir_type = ''success'', ir_message = ''imported''\<rparr>,
                   k # filter (\<lambda>x. fpr x \<noteq> fpr k) ks))"

definition sampleEnv :: "okey list \<Rightarrow> (string \<times> string) list \<Rightarrow> (okey, okey list) env" where
  "sampleEnv table registry =
     \<lparr>getKeyringById = (\<lambda>ks i. Inr i),
      readArmored = sampleRead table,
      sanitizeKey = (\<lambda>k. Inr k),
      verifyPrimaryKey = status,
      armor = armoredText,
      mapKeys = map (\<lambda>k. \<lparr>kd_type = kind k, kd_users = []\<rparr>),
      keyUsers = (\<lambda>k. []),
      verifyUser = (\<lambda>k i. valid),
      parseUserId = (\<lambda>u. u),
      getFingerprint = fpr,
      getKeysForId = (\<lambda>ks kr f. case filter (\<lambda>k. fpr k = f) ks of [] \<Rightarrow> None | k # r \<Rightarrow> Some (k # r)),
      importKeys = sampleImport table,
      cloneKey = (\<lambda>k. k),
      update = (\<lambda>stock candidate. candidate),
      getLastModifiedDate = modified,
      registryLookup = (\<lambda>ks mail krId. map_of registry mail),
      getHash = (\<lambda>n. replicate (Suc n) CHR ''h'')\<rparr>"

definition storedKey :: okey where
  "storedKey = \<lparr>armoredText = ''stored'', owner = ''a@x.com'', fpr = ''F1'', status = valid, modified = 100, kind = ''public''\<rparr>"

definition sameKey :: okey where
  "sameKey = \<lparr>armoredText = ''same'', owner = ''a@x.com'', fpr = ''F1'', status = valid, modified = 100, kind = ''public''\<rparr>"

definition newerKey :: okey where
  "newerKey = \<lparr>armoredText = ''newer'', owner = ''a@x.com'', fpr = ''F1'', status = valid, modified = 200, kind = ''public''\<rparr>"

definition revokedKey :: okey where
  "revokedKey = \<lparr>armoredText = ''revoked'', owner = ''a@x.com'', fpr = ''F1'', status = revoked, modified = 300, kind = ''public''\<rparr>"

definition privateKey :: okey where
  "privateKey = \<lparr>armoredText = ''private'', owner = ''p@x.com'', fpr = ''F2'', status = valid, modified = 100, kind = ''private''\<rparr>"

definition invalidPrivateKey :: okey where
  "invalidPrivateKey =
     \<lparr>armoredText = ''invalid private'', owner = ''q@x.com'', fpr = ''F3'', status = invalid, modified = 100, kind = ''private''\<rparr>"

definition sampleTable :: "okey list" where
  "sampleTable = [storedKey, sameKey, newerKey, revokedKey, privateKey, invalidPrivateKey]"

definition sampleWorld :: "okey list world" where
  "sampleWorld = \<lparr>keystore = [storedKey], trace = [], created = 0\<rparr>"

text \<open>A controller whose \<^verbatim>\<open>importKey\<close> has reached \<^verbatim>\<open>updateKey\<close> for the armored text \<open>a\<close>.\<close>

definition sampleController :: "string \<Rightarrow> okey ImportController" where
  "sampleController a =
     (newImportController ''c1'')\<lparr>ic_keyringId := ''kr'', keyring := Some ''kr'', armored := a\<rparr>"

text \<open>
  The events of the dialog that settle nothing: the dialog asking for the key details and
  the reports of user input. \<open>quietActions\<close> is what the controller does on them.
\<close>

fun quiet :: "dialog_event \<Rightarrow> bool" where
  "quiet key_import_dialog_init = True"
| "quiet (key_import_user_input source type) = True"
| "quiet ev = False"

fun quietActions :: "dialog_event \<Rightarrow> action list" where
  "quietActions key_import_dialog_init = [Emit Self key_details]"
| "quietActions (key_import_user_input source type) = [UiLogPush source type]"
| "quietActions ev = []"

text \<open>The user declines: the dialog is cancelled, or its window is closed.\<close>

definition declines :: "dialog_event \<Rightarrow> bool" where
  "declines ev = (ev = key_import_dialog_cancel \<or> ev = popup_removed)"

text \<open>A controller whose confirmation popup is open and whose promise is pending.\<close>

definition pendingController :: "okey ImportController" where
  "pendingController =
     (sampleController ''unreadable'')\<lparr>popupPromise := Some Pending, importPopup := Some ''dialog''\<rparr>"

text \<open>
  The fingerprints \<^verbatim>\<open>getPublicKeyFprs\<close> starts from (the buffer when it is set, else the
  fingerprints of the recipients' keys), and the default key of the keyring as a set: empty
  when the keyring has no default key.
\<close>

definition recipientFprs :: "EditorController \<Rightarrow> recipient_key list \<Rightarrow> string list" where
  "recipientFprs s ks = (case keyFprBuffer s of Some buffer \<Rightarrow> buffer | None \<Rightarrow> map fingerprint ks)"

definition senderFpr ::
  "('k, 'ks) env \<Rightarrow> ('k, 'ks) editor_env \<Rightarrow> EditorController \<Rightarrow> 'ks world \<Rightarrow> string set" where
  "senderFpr E X s w =
     (case getKeyringById E (keystore w) (ec_keyringId s) of
        Inl m \<Rightarrow> {}
      | Inr kr \<Rightarrow>
          (if keyringDefaultKeyFpr X (keystore w) kr = [] then {}
           else {keyringDefaultKeyFpr X (keystore w) kr}))"

text \<open>
  Actions that start or ask for an encryption: a call of the engine, and the request for
  the plaintext that the editor answers with \<^verbatim>\<open>editor-plaintext\<close>.
\<close>

fun startsEncryption :: "action \<Rightarrow> bool" where
  "startsEncryption (EncryptMessageCall d f g) = True"
| "startsEncryption (EncryptFileCall n f g) = True"
| "startsEncryption (SignMessageCall d g) = True"
| "startsEncryption (Emit p (get_plaintext a d)) = True"
| "startsEncryption a = False"

text \<open>
  The world \<open>w'\<close> extends \<open>w\<close> by actions that all satisfy \<open>P\<close>; it continues \<open>w\<close> when
  none of them starts an encryption.
\<close>

definition extendsBy :: "(action \<Rightarrow> bool) \<Rightarrow> 'ks world \<Rightarrow> 'ks world \<Rightarrow> bool" where
  "extendsBy P w w' = (\<exists>as. trace w' = trace w @ as \<and> list_all P as)"

definition continues :: "'ks world \<Rightarrow> 'ks world \<Rightarrow> bool" where
  "continues w w' = extendsBy (\<lambda>a. \<not> startsEncryption a) w w'"

text \<open>Actions that show content in the editor.\<close>

fun showsContent :: "action \<Rightarrow> bool" where
  "showsContent (Emit p (set_text t)) = True"
| "showsContent (Emit p (set_attachment a)) = True"
| "showsContent a = False"

text \<open>The number of valid signatures of a decrypted message.\<close>

definition validSignatures :: "signature list option \<Rightarrow> nat" where
  "validSignatures signatures =
     (case signatures of
        None \<Rightarrow> 0
      | Some sgs \<Rightarrow> length (filter (\<lambda>sg. sig_valid sg = Some True) sgs))"

text \<open>
  The instance of the collaborators of the editor: the address of a key is its owner, the
  first key of the keyring is the default key, and the results of \<^verbatim>\<open>buildMail\<close>, of the
  engine and of the password controller are given.
\<close>

definition sampleEditorEnv ::
  "bool \<Rightarrow> (js_error + string option) \<Rightarrow> (okey, string) engine_run \<Rightarrow> okey pwd_outcome
     \<Rightarrow> (okey, string \<times> signature list option) engine_run \<Rightarrow> (okey, okey list) editor_env" where
  "sampleEditorEnv autoAdd build enc pwd dec =
     \<lparr>getKeyByAddress =
        (\<lambda>ks krId mail. case filter (\<lambda>k. owner k = mail) ks of [] \<Rightarrow> None | k # r \<Rightarrow> Some (k # r)),
      keyringDefaultKeyFpr = (\<lambda>ks kr. case ks of [] \<Rightarrow> [] | k # r \<Rightarrow> fpr k),
      getDefaultKeyFpr = (\<lambda>ks krId. case ks of [] \<Rightarrow> [] | k # r \<Rightarrow> fpr k),
      prefs = \<lparr>auto_add_primary = autoAdd, password_cache = True\<rparr>,
      buildMail = (\<lambda>opts. build),
      parseMessage = (\<lambda>data. ([message_part data], None)),
      modelEncryptMessage = (\<lambda>request. enc),
      modelEncryptFile = (\<lambda>request. Finished (Inr ''encrypted file'')),
      modelSignMessage = (\<lambda>data krId f. Finished (Inr ''signed'')),
      modelDecryptMessage = (\<lambda>a krId selfSigned. dec),
      modelVerifyMessage = (\<lambda>a krId. Inr (a, Some [])),
      pwdUnlockKey = (\<lambda>request. pwd),
      mapError = (\<lambda>e. e),
      normalizeArmored = Inr,
      sanitizeHTML = (\<lambda>a. a),
      decodeEscaped = Inr,
      extractFileExtension = (\<lambda>n. ''txt''),
      btoa = (\<lambda>x. x),
      byteCount = length\<rparr>"

text \<open>The editor controller as its constructor leaves it, with or without a container port.\<close>

definition newEditorController :: "bool \<Rightarrow> EditorController" where
  "newEditorController container =
     \<lparr>encryptPromise = None, ec_keyringId = [], popup = None, signKeyFpr = None, pgpMIME = False,
      options = \<lparr>armoredDraft = None, quotedMailIndent = False, quotedMailHeader = None,
                 predefinedText = None, keepAttachments = False, reason = None\<rparr>,
      integration = False, keyFprBuffer = None, editorCont = container\<rparr>"

definition samplePlaintext :: "bool \<Rightarrow> plaintext_options" where
  "samplePlaintext sign =
     \<lparr>action = ''encrypt'', p_message = ''hello'',
      keysTo = [\<lparr>fingerprint = ''F9'', rk_name = ''B'', rk_email = ''b@x.com''\<rparr>],
      keysCc = [], keysEx = [], p_keys = [], attachments = [], signMsg = sign,
      p_signKeyFpr = None, noCache = False, subject = ''s'', p_pgpMIME = False\<rparr>"

definition cancelled :: js_error where
  "cancelled = MvError ''Password dialog canceled.'' ''PWD_DIALOG_CANCEL''"

text \<open>
  An editor whose buffer was set by \<^verbatim>\<open>onEditorContainerEncrypt\<close>, and collaborators with the
  preference \<^verbatim>\<open>auto_add_primary\<close> on.
\<close>

definition bufferedEditor :: EditorController where
  "bufferedEditor =
     (newEditorController True)\<lparr>ec_keyringId := ''kr'', keyFprBuffer := Some [''F9'', ''F1'', ''F9'']\<rparr>"

definition autoAddEnv :: "(okey, okey list) editor_env" where
  "autoAddEnv =
     sampleEditorEnv True (Inr None) (Finished (Inr []))
       \<lparr>beforePasswordRequest = None, unlocked = Inl cancelled\<rparr> (Finished (Inl cancelled))"

text \<open>
  An editor that restores a draft, an armored message, and collaborators whose engine
  decrypts it to a text without signatures.
\<close>

definition draftEditor :: EditorController where
  "draftEditor =
     (newEditorController False)
       \<lparr>ec_keyringId := ''kr'',
        options := (options (newEditorController False))
                     \<lparr>armoredDraft := Some ''-----BEGIN PGP MESSAGE-----'', keepAttachments := True\<rparr>\<rparr>"

definition unsignedEnv :: "(okey, okey list) editor_env" where
  "unsignedEnv =
     sampleEditorEnv False (Inr None) (Finished (Inr []))
       \<lparr>beforePasswordRequest = None, unlocked = Inl cancelled\<rparr>
       (Finished (Inr (''draft text'', Some [])))"

text \<open>
  An editor embedded in a container (no popup), the same editor in a popup, and
  collaborators whose engine asks for the signing key while the user dismisses the
  password dialog.
\<close>

definition containerEditor :: EditorController where
  "containerEditor = (newEditorController True)\<lparr>ec_keyringId := ''kr''\<rparr>"

definition popupEditor :: EditorController where
  "popupEditor = (newEditorController False)\<lparr>ec_keyringId := ''kr'', popup := Some ''editor''\<rparr>"

definition cancellingEnv :: "(okey, okey list) editor_env" where
  "cancellingEnv =
     sampleEditorEnv False (Inr (Some ''mail''))
       (AskUnlock storedKey (\<lambda>r. case r of Inl e \<Rightarrow> Inl e | Inr k \<Rightarrow> Inr ''armored''))
       \<lparr>beforePasswordRequest = Some ''pwd1'', unlocked = Inl cancelled\<rparr>
       (Finished (Inl cancelled))"

text \<open>
  Collaborators whose \<^verbatim>\<open>buildMail\<close> throws (the mail exceeds the quota), and collaborators
  whose \<^verbatim>\<open>buildMail\<close> returns \<^verbatim>\<open>null\<close>; the engine encrypts whatever it is given.
\<close>

definition quotaError :: js_error where
  "quotaError = MvError ''Mail content exceeds quota limit.'' ''ENCRYPT_QUOTA_SIZE''"

definition throwingBuildEnv :: "(okey, okey list) editor_env" where
  "throwingBuildEnv =
     sampleEditorEnv False (Inl quotaError) (Finished (Inr ''ciphertext''))
       \<lparr>beforePasswordRequest = None, unlocked = Inl cancelled\<rparr> (Finished (Inl cancelled))"

definition nullBuildEnv :: "(okey, okey list) editor_env" where
  "nullBuildEnv =
     sampleEditorEnv False (Inr None) (Finished (Inr ''ciphertext''))
       \<lparr>beforePasswordRequest = None, unlocked = Inl cancelled\<rparr> (Finished (Inl cancelled))"

text \<open>
  A request of the container to encrypt to two addresses, the second of which has no key
  in the keyring.
\<close>

definition twoRecipients :: encrypt_msg where
  "twoRecipients = \<lparr>em_keyringId = ''kr'', recipients = [''a@x.com'', ''b@x.com'']\<rparr>"

section \<open>Properties of the import flow\<close>

subsection \<open>The three branches of \<^verbatim>\<open>updateKey\<close>\<close>

lemma updateKey_changed:
  "validityChanges E stockKey newKey \<Longrightarrow>
   updateKey E c w fp stockKey newKey =
     openPopup (if verifyPrimaryKey E (hypotheticalMerge E stockKey newKey) \<noteq> valid
                then c\<lparr>invalidated := True\<rparr> else c) w"
  by (simp add: updateKey_def validityChanges_def hypotheticalMerge_def Let_def)

lemma updateKey_silent:
  "\<not> validityChanges E stockKey newKey \<Longrightarrow> lastModifiedChanges E stockKey newKey \<Longrightarrow>
   keyring c = Some kr \<Longrightarrow>
   updateKey E c w fp stockKey newKey =
     (let (importResult, w1) = importKeysCall E kr (armored c) w
      in if ir_type importResult = ''error''
         then (Throws (Error (ir_message importResult)), c, w1)
         else (Returns ''UPDATED'', c, w1))"
  by (simp add: updateKey_def validityChanges_def lastModifiedChanges_def hypotheticalMerge_def
      Let_def)

lemma updateKey_same:
  "\<not> validityChanges E stockKey newKey \<Longrightarrow> \<not> lastModifiedChanges E stockKey newKey \<Longrightarrow>
   updateKey E c w fp stockKey newKey = (Returns ''UPDATED'', c, w)"
  by (simp add: updateKey_def validityChanges_def lastModifiedChanges_def hypotheticalMerge_def
      Let_def)

lemma opensConfirmation_openPopup:
  "ic_id c0 = ic_id c \<Longrightarrow> opensConfirmation c w (openPopup c0 w)"
  by (simp add: opensConfirmation_def openPopup_def act_def Let_def)

lemma sample_changes:
  "validityChanges (sampleEnv sampleTable []) storedKey revokedKey"
  "\<not> validityChanges (sampleEnv sampleTable []) storedKey newerKey"
  "lastModifiedChanges (sampleEnv sampleTable []) storedKey newerKey"
  "\<not> validityChanges (sampleEnv sampleTable []) storedKey sameKey"
  "\<not> lastModifiedChanges (sampleEnv sampleTable []) storedKey sameKey"
  by (simp_all add: validityChanges_def lastModifiedChanges_def hypotheticalMerge_def
      sampleEnv_def storedKey_def revokedKey_def newerKey_def sameKey_def)

lemma sample_keyring: "keyring (sampleController a) = Some ''kr''"
  by (simp add: sampleController_def)

text \<open>
  C1. For a stored key and a candidate key, \<^verbatim>\<open>updateKey\<close> opens the confirmation popup if
  and only if the validity of the primary key before the hypothetical merge differs from
  the validity after it; it commits silently (calls \<^verbatim>\<open>importKeys\<close>, and nothing else) if
  and only if the validity is unchanged and the last-modified date changes; and when
  neither changes it returns \<^verbatim>\<open>UPDATED\<close> and leaves the controller, the keyrings and the
  trace as they were. The controller is one whose \<^verbatim>\<open>importKey\<close> has set the keyring.
\<close>

theorem updateKey_decision:
  assumes "keyring c = Some kr"
  shows "(opensConfirmation c w (updateKey E c w fp stockKey newKey)
            \<longleftrightarrow> validityChanges E stockKey newKey)
       \<and> (commitsSilently E kr c w (updateKey E c w fp stockKey newKey)
            \<longleftrightarrow> \<not> validityChanges E stockKey newKey \<and> lastModifiedChanges E stockKey newKey)
       \<and> (\<not> validityChanges E stockKey newKey \<and> \<not> lastModifiedChanges E stockKey newKey
            \<longrightarrow> updateKey E c w fp stockKey newKey = (Returns ''UPDATED'', c, w))"
proof (cases "validityChanges E stockKey newKey")
  case True
  then show ?thesis
    by (simp add: updateKey_changed opensConfirmation_openPopup)
       (simp add: commitsSilently_def openPopup_def act_def Let_def)
next
  case nv: False
  show ?thesis
  proof (cases "lastModifiedChanges E stockKey newKey")
    case True
    with nv assms show ?thesis
      by (simp add: updateKey_silent)
         (simp add: commitsSilently_def opensConfirmation_def importKeysCall_def act_def
            Let_def split: prod.splits)
  next
    case False
    with nv show ?thesis
      by (simp add: updateKey_same commitsSilently_def opensConfirmation_def)
  qed
qed

theorem updateKey_decision_witness:
  "keyring (sampleController ''revoked'') = Some ''kr''
   \<and> opensConfirmation (sampleController ''revoked'') sampleWorld
       (updateKey (sampleEnv sampleTable []) (sampleController ''revoked'') sampleWorld ''F1''
          storedKey revokedKey)
   \<and> commitsSilently (sampleEnv sampleTable []) ''kr'' (sampleController ''newer'') sampleWorld
       (updateKey (sampleEnv sampleTable []) (sampleController ''newer'') sampleWorld ''F1''
          storedKey newerKey)
   \<and> updateKey (sampleEnv sampleTable []) (sampleController ''same'') sampleWorld ''F1''
       storedKey sameKey = (Returns ''UPDATED'', sampleController ''same'', sampleWorld)"
  using updateKey_decision [OF sample_keyring, of "''revoked''" sampleWorld
      "sampleEnv sampleTable []" "''F1''" storedKey revokedKey]
    updateKey_decision [OF sample_keyring, of "''newer''" sampleWorld
      "sampleEnv sampleTable []" "''F1''" storedKey newerKey]
    updateKey_decision [OF sample_keyring, of "''same''" sampleWorld
      "sampleEnv sampleTable []" "''F1''" storedKey sameKey]
  by (simp add: sample_changes sample_keyring)

subsection \<open>Declining the confirmation\<close>

lemma dispatch_quiet:
  "quiet ev \<Longrightarrow> dispatch E ev c w = (Returns (), c, act (quietActions ev) w)"
  by (cases ev) (simp_all add: dispatch_def)

lemma act_act: "act bs (act as w) = act (as @ bs) w"
  by (simp add: act_def)

lemma act_Nil: "act [] w = w"
  by (simp add: act_def)

lemma awaitPopup_quiet:
  "list_all quiet pre \<Longrightarrow> popupPromise c = Some Pending \<Longrightarrow>
   awaitPopup E (pre @ ev # evs) c w =
     awaitPopup E (ev # evs) c (act (concat (map quietActions pre)) w)"
proof (induction pre arbitrary: w)
  case Nil
  then show ?case by (simp add: act_Nil)
next
  case (Cons p pre)
  then show ?case
    by (simp add: dispatch_quiet act_act)
qed

lemma decline_invalidated:
  assumes "declines ev" "popupPromise c = Some Pending" "invalidated c"
  shows "dispatch E ev c w =
           (Returns (), c\<lparr>importPopup := None, popupPromise := Some (Resolved ''INVALIDATED'')\<rparr>,
            if ev = key_import_dialog_cancel
            then (case importPopup c of None \<Rightarrow> w | Some p \<Rightarrow> act [PopupClose p] w) else w)"
  using assms
  by (auto simp: declines_def dispatch_def handleCancel_def onPopupRemoved_def closePopup_def
      resolve_def split: option.splits)

text \<open>
  C3. When \<^verbatim>\<open>updateKey\<close> finds that the validity changes and that the validity after the
  merge is not \<^verbatim>\<open>valid\<close>, it returns the promise of the popup, pending, with the controller
  flagged \<^verbatim>\<open>invalidated\<close>. When the user then declines (the dialog is cancelled or its
  window closed, possibly after the dialog has asked for the key details and reported user
  input), the promise is resolved with \<^verbatim>\<open>INVALIDATED\<close>, the popup is gone, \<^verbatim>\<open>importKeys\<close> was
  not called, and the keyrings are exactly what they were before \<^verbatim>\<open>updateKey\<close>: the stored
  key is kept and the candidate is not merged.
\<close>

theorem invalidated_decline_keeps_key:
  assumes changed: "validityChanges E stockKey newKey"
      and bad: "verifyPrimaryKey E (hypotheticalMerge E stockKey newKey) \<noteq> valid"
      and upd: "updateKey E c w fp stockKey newKey = (r, c1, w1)"
      and pre: "list_all quiet pre"
      and dec: "declines ev"
  shows "r = ReturnsPopupPromise \<and> invalidated c1 \<and> popupPromise c1 = Some Pending
       \<and> (\<exists>c2 w2. awaitPopup E (pre @ ev # evs) c1 w1 = Some (Returns ''INVALIDATED'', c2, w2, evs)
            \<and> importPopup c2 = None
            \<and> keystore w2 = keystore w
            \<and> (\<forall>kr a. ImportKeysCall kr a \<notin> set (trace w2) - set (trace w)))"
proof -
  from changed bad upd
  have r: "r = ReturnsPopupPromise"
    and c1: "c1 = c\<lparr>invalidated := True, popupPromise := Some Pending,
                   importPopup := Some (''components/import-key/importKey.html?id='' @ ic_id c)\<rparr>"
    and w1: "w1 = act [WindowsOpenPopup (''components/import-key/importKey.html?id='' @ ic_id c)] w"
    by (simp_all add: updateKey_changed openPopup_def Let_def)
  have p: "popupPromise c1 = Some Pending" and i: "invalidated c1"
    by (simp_all add: c1)
  have "awaitPopup E (pre @ ev # evs) c1 w1 =
          awaitPopup E (ev # evs) c1 (act (concat (map quietActions pre)) w1)"
    using pre p by (rule awaitPopup_quiet)
  also have "\<dots> = awaitPopup E evs
        (c1\<lparr>importPopup := None, popupPromise := Some (Resolved ''INVALIDATED'')\<rparr>)
        (if ev = key_import_dialog_cancel
         then (case importPopup c1 of None \<Rightarrow> act (concat (map quietActions pre)) w1
               | Some p \<Rightarrow> act [PopupClose p] (act (concat (map quietActions pre)) w1))
         else act (concat (map quietActions pre)) w1)"
    using decline_invalidated [OF dec p i, of E] by (simp add: p)
  also have "\<dots> = Some (Returns ''INVALIDATED'',
        c1\<lparr>importPopup := None, popupPromise := Some (Resolved ''INVALIDATED'')\<rparr>,
        (if ev = key_import_dialog_cancel
         then (case importPopup c1 of None \<Rightarrow> act (concat (map quietActions pre)) w1
               | Some p \<Rightarrow> act [PopupClose p] (act (concat (map quietActions pre)) w1))
         else act (concat (map quietActions pre)) w1), evs)"
    by (cases evs) simp_all
  finally have run: "awaitPopup E (pre @ ev # evs) c1 w1 = Some (Returns ''INVALIDATED'',
        c1\<lparr>importPopup := None, popupPromise := Some (Resolved ''INVALIDATED'')\<rparr>,
        (if ev = key_import_dialog_cancel
         then (case importPopup c1 of None \<Rightarrow> act (concat (map quietActions pre)) w1
               | Some p \<Rightarrow> act [PopupClose p] (act (concat (map quietActions pre)) w1))
         else act (concat (map quietActions pre)) w1), evs)" .
  have noimp: "\<And>kr a. ImportKeysCall kr a \<notin> set (concat (map quietActions pre))"
  proof -
    fix kr a
    have "\<And>e. ImportKeysCall kr a \<notin> set (quietActions e)"
      by (case_tac e) simp_all
    then show "ImportKeysCall kr a \<notin> set (concat (map quietActions pre))"
      by simp
  qed
  show ?thesis
    using noimp by (simp add: r i p run) (simp add: c1 w1 act_def)
qed

theorem invalidated_decline_keeps_key_witness:
  "validityChanges (sampleEnv sampleTable []) storedKey revokedKey
   \<and> verifyPrimaryKey (sampleEnv sampleTable []) (hypotheticalMerge (sampleEnv sampleTable []) storedKey revokedKey) \<noteq> valid
   \<and> list_all quiet [key_import_dialog_init]
   \<and> declines key_import_dialog_cancel
   \<and> invalidated (fst (snd (updateKey (sampleEnv sampleTable []) (sampleController ''revoked'')
         sampleWorld ''F1'' storedKey revokedKey)))
   \<and> (\<exists>c2 w2. awaitPopup (sampleEnv sampleTable [])
          [key_import_dialog_init, key_import_dialog_cancel]
          (fst (snd (updateKey (sampleEnv sampleTable []) (sampleController ''revoked'')
             sampleWorld ''F1'' storedKey revokedKey)))
          (snd (snd (updateKey (sampleEnv sampleTable []) (sampleController ''revoked'')
             sampleWorld ''F1'' storedKey revokedKey)))
        = Some (Returns ''INVALIDATED'', c2, w2, []) \<and> keystore w2 = [storedKey])"
proof -
  have a: "validityChanges (sampleEnv sampleTable []) storedKey revokedKey"
    by (rule sample_changes)
  have b: "verifyPrimaryKey (sampleEnv sampleTable [])
             (hypotheticalMerge (sampleEnv sampleTable []) storedKey revokedKey) \<noteq> valid"
    by (simp add: hypotheticalMerge_def sampleEnv_def revokedKey_def)
  have q: "list_all quiet [key_import_dialog_init]" by simp
  have d: "declines key_import_dialog_cancel" by (simp add: declines_def)
  have u: "updateKey (sampleEnv sampleTable []) (sampleController ''revoked'') sampleWorld ''F1''
             storedKey revokedKey
           = (fst (updateKey (sampleEnv sampleTable []) (sampleController ''revoked'') sampleWorld
                ''F1'' storedKey revokedKey),
              fst (snd (updateKey (sampleEnv sampleTable []) (sampleController ''revoked'')
                sampleWorld ''F1'' storedKey revokedKey)),
              snd (snd (updateKey (sampleEnv sampleTable []) (sampleController ''revoked'')
                sampleWorld ''F1'' storedKey revokedKey)))"
    by simp
  have k: "keystore sampleWorld = [storedKey]" by (simp add: sampleWorld_def)
  show ?thesis
    using invalidated_decline_keeps_key [OF a b u q d, of "[]"] a b q d
    by (auto simp: k)
qed

subsection \<open>An update that changes nothing\<close>

text \<open>
  C9. When the hypothetical merge changes neither the validity of the primary key nor the
  last-modified date, \<^verbatim>\<open>updateKey\<close> returns \<^verbatim>\<open>UPDATED\<close>, and it has not touched the keyrings
  and has called nothing: the trace is the one before the call, so \<^verbatim>\<open>importKeys\<close> was not
  called.
\<close>

theorem updateKey_no_change:
  assumes "\<not> validityChanges E stockKey newKey"
      and "\<not> lastModifiedChanges E stockKey newKey"
  shows "fst (updateKey E c w fp stockKey newKey) = Returns ''UPDATED''
       \<and> keystore (snd (snd (updateKey E c w fp stockKey newKey))) = keystore w
       \<and> trace (snd (snd (updateKey E c w fp stockKey newKey))) = trace w"
  using assms by (simp add: updateKey_same)

theorem updateKey_no_change_witness:
  "\<not> validityChanges (sampleEnv sampleTable []) storedKey sameKey
   \<and> \<not> lastModifiedChanges (sampleEnv sampleTable []) storedKey sameKey
   \<and> fst (updateKey (sampleEnv sampleTable []) (sampleController ''same'') sampleWorld ''F1''
        storedKey sameKey) = Returns ''UPDATED''
   \<and> keystore (snd (snd (updateKey (sampleEnv sampleTable []) (sampleController ''same'')
        sampleWorld ''F1'' storedKey sameKey))) = [storedKey]
   \<and> trace (snd (snd (updateKey (sampleEnv sampleTable []) (sampleController ''same'')
        sampleWorld ''F1'' storedKey sameKey))) = []"
  using updateKey_no_change [OF sample_changes(4) sample_changes(5),
      of "sampleController ''same''" sampleWorld "''F1''"]
  by (simp add: sample_changes sampleWorld_def)

subsection \<open>An import that fails while the confirmation is pending\<close>

text \<open>
  C7, as stated, has a failed import close the popup and reject the promise. It does not:
  for a controller with its popup open and its promise pending, an \<^verbatim>\<open>importKeys\<close> that
  answers \<^verbatim>\<open>error\<close> leaves \<^verbatim>\<open>onImportOk\<close> with the promise still pending and the popup still
  open; what it does is emit \<^verbatim>\<open>import-error\<close>.
\<close>

theorem failed_import_keeps_popup_counterexample:
  "keyring ((sampleController ''unreadable'')\<lparr>popupPromise := Some Pending, importPopup := Some ''dialog''\<rparr>) = Some ''kr''
   \<and> ir_type (fst (importKeys (sampleEnv sampleTable []) (keystore sampleWorld) ''kr'' ''unreadable'')) = ''error''
   \<and> popupPromise (fst (snd (onImportOk (sampleEnv sampleTable [])
         ((sampleController ''unreadable'')\<lparr>popupPromise := Some Pending, importPopup := Some ''dialog''\<rparr>)
         sampleWorld))) = Some Pending
   \<and> importPopup (fst (snd (onImportOk (sampleEnv sampleTable [])
         ((sampleController ''unreadable'')\<lparr>popupPromise := Some Pending, importPopup := Some ''dialog''\<rparr>)
         sampleWorld))) = Some ''dialog''
   \<and> trace (snd (snd (onImportOk (sampleEnv sampleTable [])
         ((sampleController ''unreadable'')\<lparr>popupPromise := Some Pending, importPopup := Some ''dialog''\<rparr>)
         sampleWorld)))
       = [ImportKeysCall ''kr'' ''unreadable'', Emit Self (import_error ''Unable to read one public key'')]"
  by (simp add: onImportOk_def importKeysCall_def sampleController_def newImportController_def
      sampleEnv_def sampleImport_def sampleTable_def sampleWorld_def act_def
      storedKey_def sameKey_def newerKey_def revokedKey_def privateKey_def invalidPrivateKey_def)

lemma onImportOk_error:
  assumes "keyring c = Some kr"
      and "ir_type (fst (importKeys E (keystore w) kr (armored c))) = ''error''"
  shows "onImportOk E c w =
           (Returns (), c\<lparr>importError := True\<rparr>,
            act [ImportKeysCall kr (armored c),
                 Emit Self (import_error (ir_message (fst (importKeys E (keystore w) kr (armored c)))))]
              (w\<lparr>keystore := snd (importKeys E (keystore w) kr (armored c))\<rparr>))"
proof (cases "importKeys E (keystore w) kr (armored c)")
  case (Pair res ks)
  with assms show ?thesis
    by (simp add: onImportOk_def importKeysCall_def act_def)
qed

lemma decline_importError:
  assumes "declines ev" "popupPromise c = Some Pending" "\<not> invalidated c" "importError c"
  shows "dispatch E ev c w =
           (Returns (),
            c\<lparr>importPopup := None,
              popupPromise := Some (Rejected \<lparr>message = ''An error occured during key import'',
                                              code = Some ''IMPORT_ERROR''\<rparr>)\<rparr>,
            if ev = key_import_dialog_cancel
            then (case importPopup c of None \<Rightarrow> w | Some p \<Rightarrow> act [PopupClose p] w) else w)"
  using assms
  by (auto simp: declines_def dispatch_def handleCancel_def onPopupRemoved_def closePopup_def
      reject_def split: option.splits)

text \<open>
  C7, amended. For a controller with a pending promise, when \<^verbatim>\<open>importKeys\<close> answers
  \<^verbatim>\<open>error\<close>, \<^verbatim>\<open>onImportOk\<close> emits \<^verbatim>\<open>import-error\<close> with the message of the failure and sets
  \<^verbatim>\<open>importError\<close>; the popup stays as it is and the promise stays pending. When the user
  then declines (cancels the dialog or closes its window) and the controller was not
  flagged \<^verbatim>\<open>invalidated\<close>, the popup is closed and the promise is rejected with code
  \<^verbatim>\<open>IMPORT_ERROR\<close>.
\<close>

theorem failed_import_then_decline:
  assumes kr: "keyring c = Some kr"
      and pending: "popupPromise c = Some Pending"
      and failure: "ir_type (fst (importKeys E (keystore w) kr (armored c))) = ''error''"
      and ok: "onImportOk E c w = (r, c1, w1)"
  shows "r = Returns () \<and> importError c1
       \<and> popupPromise c1 = Some Pending \<and> importPopup c1 = importPopup c
       \<and> trace w1 = trace w @ [ImportKeysCall kr (armored c),
            Emit Self (import_error (ir_message (fst (importKeys E (keystore w) kr (armored c)))))]
       \<and> (declines ev \<and> \<not> invalidated c \<longrightarrow>
            (\<exists>c2 w2. awaitPopup E (ev # evs) c1 w1
                = Some (Throws \<lparr>message = ''An error occured during key import'',
                                 code = Some ''IMPORT_ERROR''\<rparr>, c2, w2, evs)
              \<and> importPopup c2 = None
              \<and> popupPromise c2 = Some (Rejected \<lparr>message = ''An error occured during key import'',
                                                    code = Some ''IMPORT_ERROR''\<rparr>)))"
proof -
  from ok onImportOk_error [OF kr failure]
  have r: "r = Returns ()" and c1: "c1 = c\<lparr>importError := True\<rparr>"
    and w1: "trace w1 = trace w @ [ImportKeysCall kr (armored c),
            Emit Self (import_error (ir_message (fst (importKeys E (keystore w) kr (armored c)))))]"
    by (auto simp: act_def)
  have p: "popupPromise c1 = Some Pending" by (simp add: c1 pending)
  have e: "importError c1" by (simp add: c1)
  have "\<exists>c2 w2. awaitPopup E (ev # evs) c1 w1
                = Some (Throws \<lparr>message = ''An error occured during key import'',
                                 code = Some ''IMPORT_ERROR''\<rparr>, c2, w2, evs)
              \<and> importPopup c2 = None
              \<and> popupPromise c2 = Some (Rejected \<lparr>message = ''An error occured during key import'',
                                                    code = Some ''IMPORT_ERROR''\<rparr>)"
    if d: "declines ev" and n: "\<not> invalidated c"
  proof -
    have n1: "\<not> invalidated c1" using n by (simp add: c1)
    show ?thesis
      using decline_importError [OF d p n1 e, of E w1]
      by (cases evs) (simp_all add: p)
  qed
  then show ?thesis
    by (simp add: r e p w1) (simp add: c1)
qed

theorem failed_import_then_decline_witness:
  "keyring pendingController = Some ''kr''
   \<and> popupPromise pendingController = Some Pending
   \<and> ir_type (fst (importKeys (sampleEnv sampleTable []) (keystore sampleWorld) ''kr''
         (armored pendingController))) = ''error''
   \<and> declines key_import_dialog_cancel \<and> \<not> invalidated pendingController
   \<and> importError (fst (snd (onImportOk (sampleEnv sampleTable []) pendingController sampleWorld)))
   \<and> (\<exists>c2 w2. awaitPopup (sampleEnv sampleTable []) [key_import_dialog_cancel]
          (fst (snd (onImportOk (sampleEnv sampleTable []) pendingController sampleWorld)))
          (snd (snd (onImportOk (sampleEnv sampleTable []) pendingController sampleWorld)))
        = Some (Throws \<lparr>message = ''An error occured during key import'',
                        code = Some ''IMPORT_ERROR''\<rparr>, c2, w2, [])
        \<and> importPopup c2 = None)"
proof -
  have k: "keyring pendingController = Some ''kr''"
    and p: "popupPromise pendingController = Some Pending"
    and n: "\<not> invalidated pendingController"
    and a: "armored pendingController = ''unreadable''"
    by (simp_all add: pendingController_def sampleController_def newImportController_def)
  have f: "ir_type (fst (importKeys (sampleEnv sampleTable []) (keystore sampleWorld) ''kr''
         (armored pendingController))) = ''error''"
    by (simp add: a sampleEnv_def sampleImport_def sampleTable_def storedKey_def sameKey_def
        newerKey_def revokedKey_def privateKey_def invalidPrivateKey_def)
  have d: "declines key_import_dialog_cancel" by (simp add: declines_def)
  have u: "onImportOk (sampleEnv sampleTable []) pendingController sampleWorld
           = (fst (onImportOk (sampleEnv sampleTable []) pendingController sampleWorld),
              fst (snd (onImportOk (sampleEnv sampleTable []) pendingController sampleWorld)),
              snd (snd (onImportOk (sampleEnv sampleTable []) pendingController sampleWorld)))"
    by simp
  from failed_import_then_decline [OF k p f u, of key_import_dialog_cancel "[]"] d n
  have "importError (fst (snd (onImportOk (sampleEnv sampleTable []) pendingController sampleWorld)))
   \<and> (\<exists>c2 w2. awaitPopup (sampleEnv sampleTable []) [key_import_dialog_cancel]
          (fst (snd (onImportOk (sampleEnv sampleTable []) pendingController sampleWorld)))
          (snd (snd (onImportOk (sampleEnv sampleTable []) pendingController sampleWorld)))
        = Some (Throws \<lparr>message = ''An error occured during key import'',
                        code = Some ''IMPORT_ERROR''\<rparr>, c2, w2, [])
        \<and> importPopup c2 = None)"
    by blast
  with k p f d n show ?thesis by blast
qed

subsection \<open>Private keys\<close>

lemma importKeyBody_private:
  assumes "parsedKeyIsPrivate E arm"
  shows "\<exists>m c'. importKeyBody E c w krId arm rot =
            (Thrown (Error m), c',
             if err (readArmored E arm) = None \<and> length (keys (readArmored E arm)) > 1
                \<and> (\<exists>kr. getKeyringById E (keystore w) krId = Inr kr)
             then act [ConsoleLog ''Multiple keys detected during key import, only first key is imported.''] w
             else w)
          \<and> popupPromise c' = popupPromise c \<and> importPopup c' = importPopup c
          \<and> (passesKeyChecks E (keystore w) krId arm \<longrightarrow> m = ''Import of private keys not allowed.'')"
  using assms
  by (auto simp: importKeyBody_def parsedKeyIsPrivate_def passesKeyChecks_def Let_def
      split: sum.splits option.splits list.splits)

lemma sampleRead_invalid_private:
  "sampleRead sampleTable ''invalid private'' = \<lparr>keys = [invalidPrivateKey], err = None\<rparr>"
  by (simp add: sampleRead_def sampleTable_def storedKey_def sameKey_def newerKey_def
      revokedKey_def privateKey_def invalidPrivateKey_def)

lemma sampleRead_private:
  "sampleRead sampleTable ''private'' = \<lparr>keys = [privateKey], err = None\<rparr>"
  by (simp add: sampleRead_def sampleTable_def storedKey_def sameKey_def newerKey_def
      revokedKey_def privateKey_def invalidPrivateKey_def)

text \<open>
  C10, as stated, has every private key rejected with the message
  \<^verbatim>\<open>Import of private keys not allowed.\<close> A private key whose primary key is invalid is
  rejected earlier, by the validity check, with the message \<^verbatim>\<open>Key is invalid.\<close>
\<close>

theorem private_key_message_counterexample:
  "parsedKeyIsPrivate (sampleEnv sampleTable []) ''invalid private''
   \<and> fst (importKey (sampleEnv sampleTable []) (newImportController ''c1'') sampleWorld ''kr''
        ''invalid private'' None) = Throws (MvError ''Key is invalid.'' ''IMPORT_ERROR'')
   \<and> fst (importKey (sampleEnv sampleTable []) (newImportController ''c1'') sampleWorld ''kr''
        ''invalid private'' None)
       \<noteq> Throws (MvError ''Import of private keys not allowed.'' ''IMPORT_ERROR'')"
proof -
  have p: "parsedKeyIsPrivate (sampleEnv sampleTable []) ''invalid private''"
    by (simp add: parsedKeyIsPrivate_def sampleEnv_def sampleRead_invalid_private
        invalidPrivateKey_def)
  have b: "fst (importKeyBody (sampleEnv sampleTable []) (newImportController ''c1'') sampleWorld
             ''kr'' ''invalid private'' None) = Thrown (Error ''Key is invalid.'')"
    by (simp add: importKeyBody_def sampleEnv_def sampleRead_invalid_private
        invalidPrivateKey_def Let_def)
  have i: "fst (importKey (sampleEnv sampleTable []) (newImportController ''c1'') sampleWorld ''kr''
        ''invalid private'' None) = Throws (MvError ''Key is invalid.'' ''IMPORT_ERROR'')"
    using b
    by (cases "importKeyBody (sampleEnv sampleTable []) (newImportController ''c1'') sampleWorld
             ''kr'' ''invalid private'' None")
       (simp add: importKey_def Error_def)
  show ?thesis
    by (simp add: p i) (simp add: MvError_def)
qed

text \<open>
  C10, amended. When the key parsed from the armored text is a private key, \<^verbatim>\<open>importKey\<close>
  throws an error with code \<^verbatim>\<open>IMPORT_ERROR\<close>; it opens no popup, does not call \<^verbatim>\<open>importKeys\<close>
  and leaves the keyrings as they were. When the text passes the checks that precede the
  look at the type (the keyring exists, the text parses, the key survives \<^verbatim>\<open>sanitizeKey\<close>
  and is not invalid), the message is \<^verbatim>\<open>Import of private keys not allowed.\<close>
\<close>

theorem private_key_rejected:
  assumes "parsedKeyIsPrivate E arm"
  shows "\<exists>m c' w'. importKey E c w krId arm rot = (Throws (MvError m ''IMPORT_ERROR''), c', w')
          \<and> (passesKeyChecks E (keystore w) krId arm \<longrightarrow> m = ''Import of private keys not allowed.'')
          \<and> keystore w' = keystore w
          \<and> (\<forall>kr a. ImportKeysCall kr a \<notin> set (trace w') - set (trace w))
          \<and> popupPromise c' = popupPromise c \<and> importPopup c' = importPopup c"
proof -
  define w' where "w' =
    (if err (readArmored E arm) = None \<and> length (keys (readArmored E arm)) > 1
        \<and> (\<exists>kr. getKeyringById E (keystore w) krId = Inr kr)
     then act [ConsoleLog ''Multiple keys detected during key import, only first key is imported.''] w
     else w)"
  from importKeyBody_private [OF assms, of c w krId rot]
  obtain m c' where b: "importKeyBody E c w krId arm rot = (Thrown (Error m), c', w')"
    and c': "popupPromise c' = popupPromise c" "importPopup c' = importPopup c"
    and m: "passesKeyChecks E (keystore w) krId arm \<longrightarrow> m = ''Import of private keys not allowed.''"
    unfolding w'_def by blast
  have i: "importKey E c w krId arm rot = (Throws (MvError m ''IMPORT_ERROR''), c', w')"
    by (simp add: importKey_def b Error_def)
  have k: "keystore w' = keystore w"
    by (simp add: w'_def act_def)
  have t: "\<forall>kr a. ImportKeysCall kr a \<notin> set (trace w') - set (trace w)"
    by (simp add: w'_def act_def)
  from i k t c' m show ?thesis
    by blast
qed

theorem private_key_rejected_witness:
  "parsedKeyIsPrivate (sampleEnv sampleTable []) ''private''
   \<and> passesKeyChecks (sampleEnv sampleTable []) (keystore sampleWorld) ''kr'' ''private''
   \<and> (\<exists>c' w'. importKey (sampleEnv sampleTable []) (newImportController ''c1'') sampleWorld ''kr''
          ''private'' None
        = (Throws (MvError ''Import of private keys not allowed.'' ''IMPORT_ERROR''), c', w')
        \<and> keystore w' = keystore sampleWorld)"
proof -
  have a: "parsedKeyIsPrivate (sampleEnv sampleTable []) ''private''"
    by (simp add: parsedKeyIsPrivate_def sampleEnv_def sampleRead_private privateKey_def)
  have b: "passesKeyChecks (sampleEnv sampleTable []) (keystore sampleWorld) ''kr'' ''private''"
    by (simp add: passesKeyChecks_def sampleEnv_def sampleRead_private privateKey_def)
  from private_key_rejected [OF a, of "newImportController ''c1''" sampleWorld "''kr''" None] b
  have "\<exists>c' w'. importKey (sampleEnv sampleTable []) (newImportController ''c1'') sampleWorld ''kr''
          ''private'' None
        = (Throws (MvError ''Import of private keys not allowed.'' ''IMPORT_ERROR''), c', w')
        \<and> keystore w' = keystore sampleWorld"
    by blast
  with a b show ?thesis by blast
qed

section \<open>Properties of the editor\<close>

subsection \<open>The fingerprints to encrypt to\<close>

lemma set_sortAndDeDup: "set (sortAndDeDup xs) = set xs"
  by (simp add: sortAndDeDup_def)

lemma sorted_sortAndDeDup: "sorted (sortAndDeDup xs)"
  by (simp add: sortAndDeDup_def sorted_remdups_adj)

lemma distinct_remdups_adj_sorted:
  "sorted xs \<Longrightarrow> distinct (remdups_adj xs)" for xs :: "'a::linorder list"
proof (induction xs rule: remdups_adj.induct)
  case (3 x y xs)
  show ?case
  proof (cases "x = y")
    case True
    with 3 show ?thesis by simp
  next
    case False
    from "3.prems" have "\<forall>z \<in> set (y # xs). x \<le> z" and "\<forall>z \<in> set xs. y \<le> z"
      by simp_all
    with False have "x \<notin> set (y # xs)"
      by force
    with False 3 show ?thesis by simp
  qed
qed simp_all

lemma distinct_sortAndDeDup: "distinct (sortAndDeDup xs)"
  by (simp add: sortAndDeDup_def distinct_remdups_adj_sorted)

lemma sortAndDeDup_cong: "set xs = set ys \<Longrightarrow> sortAndDeDup xs = sortAndDeDup ys"
  by (rule sorted_distinct_set_unique)
     (simp_all add: set_sortAndDeDup sorted_sortAndDeDup distinct_sortAndDeDup)

text \<open>
  C4. When the keyring of the session exists (it is looked up only when the preference
  \<^verbatim>\<open>auto_add_primary\<close> is on), \<^verbatim>\<open>getPublicKeyFprs\<close> returns a list whose elements are the
  fingerprints of the recipients' keys (or of the buffer when it is set) together with,
  exactly when the preference is on, the default key of the keyring, if it has one. The
  list is sorted and has no duplicates. A second run, on the state the first one leaves
  (where the default key has been pushed onto the buffer), returns the same list.
\<close>

theorem getPublicKeyFprs_list:
  assumes "auto_add_primary (prefs X) \<longrightarrow> (\<exists>kr. getKeyringById E (keystore w) (ec_keyringId s) = Inr kr)"
  shows "\<exists>fprs s1. getPublicKeyFprs E X s w ks = (Inr fprs, s1)
          \<and> set fprs = set (recipientFprs s ks)
                \<union> (if auto_add_primary (prefs X) then senderFpr E X s w else {})
          \<and> sorted fprs \<and> distinct fprs
          \<and> fst (getPublicKeyFprs E X s1 w ks) = Inr fprs"
proof (cases "auto_add_primary (prefs X)")
  case False
  then show ?thesis
    by (simp add: getPublicKeyFprs_def recipientFprs_def set_sortAndDeDup sorted_sortAndDeDup
        distinct_sortAndDeDup Let_def)
next
  case True
  with assms obtain kr where kr: "getKeyringById E (keystore w) (ec_keyringId s) = Inr kr"
    by blast
  show ?thesis
  proof (cases "keyringDefaultKeyFpr X (keystore w) kr = []")
    case e: True
    with True kr show ?thesis
      by (simp add: getPublicKeyFprs_def recipientFprs_def senderFpr_def set_sortAndDeDup
          sorted_sortAndDeDup distinct_sortAndDeDup Let_def)
  next
    case ne: False
    show ?thesis
    proof (cases "keyFprBuffer s")
      case None
      with True kr ne show ?thesis
        by (simp add: getPublicKeyFprs_def recipientFprs_def senderFpr_def set_sortAndDeDup
            sorted_sortAndDeDup distinct_sortAndDeDup Let_def)
    next
      case (Some buffer)
      have again: "sortAndDeDup (buffer @ [d, d]) = sortAndDeDup (buffer @ [d])" for d
        by (rule sortAndDeDup_cong) auto
      from Some True kr ne show ?thesis
        by (simp add: getPublicKeyFprs_def recipientFprs_def senderFpr_def set_sortAndDeDup
            sorted_sortAndDeDup distinct_sortAndDeDup again Let_def)
    qed
  qed
qed

theorem getPublicKeyFprs_list_witness:
  "(\<exists>kr. getKeyringById (sampleEnv sampleTable []) (keystore sampleWorld) (ec_keyringId bufferedEditor) = Inr kr)
   \<and> getPublicKeyFprs (sampleEnv sampleTable [])
        autoAddEnv
        bufferedEditor sampleWorld []
      = (Inr [''F1'', ''F9''], bufferedEditor\<lparr>keyFprBuffer := Some [''F9'', ''F1'', ''F9'', ''F1'']\<rparr>)
   \<and> fst (getPublicKeyFprs (sampleEnv sampleTable [])
        autoAddEnv
        (bufferedEditor\<lparr>keyFprBuffer := Some [''F9'', ''F1'', ''F9'', ''F1'']\<rparr>) sampleWorld [])
      = Inr [''F1'', ''F9'']"
proof -
  let ?X = autoAddEnv
  have k: "\<exists>kr. getKeyringById (sampleEnv sampleTable []) (keystore sampleWorld) (ec_keyringId bufferedEditor) = Inr kr"
    by (simp add: sampleEnv_def)
  then have h: "auto_add_primary (prefs ?X) \<longrightarrow> (\<exists>kr. getKeyringById (sampleEnv sampleTable []) (keystore sampleWorld) (ec_keyringId bufferedEditor) = Inr kr)"
    by simp
  have s: "sortAndDeDup [''F9'', ''F1'', ''F9'', ''F1''] = [''F1'', ''F9'']"
    by (simp add: sortAndDeDup_def)
  have g: "getPublicKeyFprs (sampleEnv sampleTable []) ?X bufferedEditor sampleWorld []
      = (Inr [''F1'', ''F9''], bufferedEditor\<lparr>keyFprBuffer := Some [''F9'', ''F1'', ''F9'', ''F1'']\<rparr>)"
    by (simp add: getPublicKeyFprs_def sampleEnv_def autoAddEnv_def sampleEditorEnv_def bufferedEditor_def
        newEditorController_def sampleWorld_def storedKey_def s Let_def)
  from getPublicKeyFprs_list [OF h, of "[]"] g
  have "fst (getPublicKeyFprs (sampleEnv sampleTable []) ?X
        (bufferedEditor\<lparr>keyFprBuffer := Some [''F9'', ''F1'', ''F9'', ''F1'']\<rparr>) sampleWorld [])
      = Inr [''F1'', ''F9'']"
    by simp
  with k g show ?thesis by blast
qed

subsection \<open>Restoring a draft\<close>

lemma extendsBy_refl: "extendsBy P w w"
  by (simp add: extendsBy_def)

lemma extendsBy_act: "list_all P as \<Longrightarrow> extendsBy P w (act as w)"
  by (simp add: extendsBy_def act_def)

lemma extendsBy_act_trans: "extendsBy P w w1 \<Longrightarrow> list_all P as \<Longrightarrow> extendsBy P w (act as w1)"
  by (auto simp: extendsBy_def act_def)

lemma unlockKey_hides:
  "extendsBy (\<lambda>a. \<not> showsContent a) w (snd (unlockKey X s opts w))"
  by (auto simp: unlockKey_def Let_def extendsBy_act extendsBy_refl
      intro!: extendsBy_act_trans split: option.splits sum.splits prod.splits)

lemma decryptUnlock_hides:
  "extendsBy (\<lambda>a. \<not> showsContent a) w (snd (decryptUnlock X s k w))"
proof -
  let ?u = "unlockKey X s \<lparr>uo_key = k, uo_noCache = False, uo_reason = None, uo_sync = None\<rparr> w"
  have "extendsBy (\<lambda>a. \<not> showsContent a) w (snd ?u)"
    by (rule unlockKey_hides)
  then show ?thesis
    by (cases ?u) (auto simp: decryptUnlock_def intro: extendsBy_act_trans split: sum.splits)
qed

lemma runEngine_hides:
  assumes "\<And>k w. extendsBy P w (snd (cb k w))"
  shows "extendsBy P w (snd (runEngine (Some cb) run w))"
proof (cases run)
  case (Finished r)
  then show ?thesis by (simp add: runEngine_def extendsBy_refl)
next
  case (AskUnlock k continue)
  with assms [of w k] show ?thesis
    by (cases "cb k w") (simp add: runEngine_def)
qed

lemma decryptData_hides:
  "extendsBy (\<lambda>a. \<not> showsContent a) w (snd (decryptData X s w arm))"
  by (auto simp: decryptData_def extendsBy_refl decryptUnlock_hides
      intro!: runEngine_hides split: sum.splits prod.splits)

lemma oneValidSignature_count: "oneValidSignature sigs \<Longrightarrow> validSignatures sigs = 1"
  by (auto simp: oneValidSignature_def validSignatures_def split: option.splits list.splits)

text \<open>
  C5. When a draft is restored (\<^verbatim>\<open>armoredDraft\<close> is set) and the message decrypts or
  verifies to content whose signatures are not exactly one valid signature,
  \<^verbatim>\<open>decryptArmored\<close> ends by emitting \<^verbatim>\<open>decrypt-failed\<close> with the error of the failed restore,
  and nothing it emits before shows content: no \<^verbatim>\<open>set-text\<close> and no \<^verbatim>\<open>set-attachment\<close>. The
  test of the code is \<open>oneValidSignature\<close>; by \<open>oneValidSignature_count\<close> it fails whenever
  the number of valid signatures is not one.
\<close>

theorem unsigned_draft_not_shown:
  assumes draft: "truthy (armoredDraft (options s))"
      and data: "fst (decryptData X s w arm) = Inr (data, sigs)"
      and sig: "\<not> oneValidSignature sigs"
  shows "\<exists>as. trace (decryptArmored X s w arm)
            = trace w @ as @ [Emit Editor (decrypt_failed (mapError X
                \<lparr>message = ''Restoring of the draft failed due to invalid signature.'',
                 code = None\<rparr>))]
          \<and> list_all (\<lambda>a. \<not> showsContent a) as"
proof -
  obtain w1 where d: "decryptData X s w arm = (Inr (data, sigs), w1)"
    using data by (cases "decryptData X s w arm") simp
  from decryptData_hides [of w X s arm] d
  obtain as where as: "trace w1 = trace w @ as" "list_all (\<lambda>a. \<not> showsContent a) as"
    by (auto simp: extendsBy_def)
  have "decryptArmored X s w arm = act [Emit Editor (decrypt_failed (mapError X
                \<lparr>message = ''Restoring of the draft failed due to invalid signature.'',
                 code = None\<rparr>))] w1"
    using draft sig by (simp add: decryptArmored_def decryptTry_def d)
  with as show ?thesis
    by (simp add: act_def)
qed

lemma begin_pgp_message: "test BEGIN_PGP_MESSAGE ''-----BEGIN PGP MESSAGE-----''"
  by (simp add: BEGIN_PGP_MESSAGE_def isWhiteSpace_def)

theorem unsigned_draft_not_shown_witness:
  "truthy (armoredDraft (options draftEditor))
   \<and> fst (decryptData unsignedEnv draftEditor sampleWorld ''-----BEGIN PGP MESSAGE-----'')
       = Inr (''draft text'', Some [])
   \<and> \<not> oneValidSignature (Some [])
   \<and> (\<exists>as. trace (decryptArmored unsignedEnv draftEditor sampleWorld ''-----BEGIN PGP MESSAGE-----'')
          = as @ [Emit Editor (decrypt_failed
              \<lparr>message = ''Restoring of the draft failed due to invalid signature.'', code = None\<rparr>)]
        \<and> list_all (\<lambda>a. \<not> showsContent a) as)"
proof -
  have t: "truthy (armoredDraft (options draftEditor))"
    by (simp add: draftEditor_def newEditorController_def truthy_def)
  have d: "fst (decryptData unsignedEnv draftEditor sampleWorld ''-----BEGIN PGP MESSAGE-----'')
       = Inr (''draft text'', Some [])"
    by (simp add: decryptData_def begin_pgp_message unsignedEnv_def sampleEditorEnv_def
        runEngine_def del: test.simps)
  have n: "\<not> oneValidSignature (Some [])"
    by (simp add: oneValidSignature_def)
  have m: "mapError unsignedEnv = (\<lambda>e. e)"
    by (simp add: unsignedEnv_def sampleEditorEnv_def)
  from unsigned_draft_not_shown [OF t d n]
  have "\<exists>as. trace (decryptArmored unsignedEnv draftEditor sampleWorld ''-----BEGIN PGP MESSAGE-----'')
          = as @ [Emit Editor (decrypt_failed
              \<lparr>message = ''Restoring of the draft failed due to invalid signature.'', code = None\<rparr>)]
        \<and> list_all (\<lambda>a. \<not> showsContent a) as"
    by (simp add: m sampleWorld_def)
  with t d n show ?thesis by blast
qed

subsection \<open>Cancelling the password dialog\<close>

lemma sortAndDeDup_F9: "sortAndDeDup [''F9''] = [''F9'']"
  by (simp add: sortAndDeDup_def)

text \<open>
  C6, as stated, has the cancellation of the password dialog never shown as an error. In
  an editor without popup (embedded in a container) it is: the handler emits
  \<^verbatim>\<open>error-message\<close> with the \<^verbatim>\<open>PWD_DIALOG_CANCEL\<close> error on the editor port and on the
  container port, and then \<^verbatim>\<open>encrypt-failed\<close>.
\<close>

theorem cancel_without_popup_counterexample:
  "popup containerEditor = None
   \<and> code cancelled = Some ''PWD_DIALOG_CANCEL''
   \<and> trace (snd (onEditorPlaintext (sampleEnv sampleTable []) cancellingEnv containerEditor
        sampleWorld (samplePlaintext True)))
       = [Emit Editor encrypt_in_progress,
          EncryptMessageCall (Data ''mail'') [''F9''] (Some ''F1''),
          ConsoleLog ''Password dialog canceled.'',
          Emit Editor (error_message cancelled),
          Emit EditorCont (error_message cancelled),
          Emit Editor encrypt_failed]"
  by (simp add: onEditorPlaintext_def plaintextTry_def signAndEncrypt_def encryptWith_def getPublicKeyFprs_def
      encryptMessage_def runEngine_def unlockKey_def containerEditor_def newEditorController_def
      cancellingEnv_def sampleEditorEnv_def sampleEnv_def sampleWorld_def samplePlaintext_def
      storedKey_def cancelled_def MvError_def truthy_def act_def sortAndDeDup_F9 Let_def)

lemma getPublicKeyFprs_popup: "popup (snd (getPublicKeyFprs E X s w ks)) = popup s"
  by (simp add: getPublicKeyFprs_def Let_def split: sum.splits option.splits)

lemma signAndEncrypt_state:
  "fst (snd (signAndEncrypt E X s w opts)) = s
   \<or> fst (snd (signAndEncrypt E X s w opts)) = snd (getPublicKeyFprs E X s w (p_keys opts))"
  by (simp add: signAndEncrypt_def split: prod.splits sum.splits)

lemma signAndEncrypt_popup: "popup (fst (snd (signAndEncrypt E X s w opts))) = popup s"
  using signAndEncrypt_state [of E X s w opts] getPublicKeyFprs_popup [of E X s w "p_keys opts"]
  by auto

text \<open>
  C6, amended. In a session whose editor runs in the popup (\<^verbatim>\<open>this.popup\<close> is set), when
  \<^verbatim>\<open>signAndEncrypt\<close> fails with code \<^verbatim>\<open>PWD_DIALOG_CANCEL\<close>, all that \<^verbatim>\<open>onEditorPlaintext\<close>
  does after the failure is to emit \<^verbatim>\<open>hide-pwd-dialog\<close>: no \<^verbatim>\<open>error-message\<close> and no
  \<^verbatim>\<open>encrypt-failed\<close> follow.
\<close>

theorem cancel_in_popup_is_silent:
  assumes "popup s \<noteq> None"
      and "signAndEncrypt E X s w (opts\<lparr>p_keys := keysTo opts @ keysCc opts @ keysEx opts\<rparr>)
             = (Inl e, s1, w1)"
      and "code e = Some ''PWD_DIALOG_CANCEL''"
  shows "onEditorPlaintext E X s w opts = (s1, act [Emit Self hide_pwd_dialog] w1)"
proof -
  from signAndEncrypt_popup [of E X s w "opts\<lparr>p_keys := keysTo opts @ keysCc opts @ keysEx opts\<rparr>"]
    assms(1,2)
  have "popup s1 \<noteq> None" by simp
  with assms(2,3) show ?thesis
    by (simp add: onEditorPlaintext_def plaintextTry_def Let_def)
qed

theorem cancel_in_popup_is_silent_witness:
  "popup popupEditor \<noteq> None
   \<and> code cancelled = Some ''PWD_DIALOG_CANCEL''
   \<and> signAndEncrypt (sampleEnv sampleTable []) cancellingEnv popupEditor sampleWorld
         ((samplePlaintext True)\<lparr>p_keys := keysTo (samplePlaintext True)
             @ keysCc (samplePlaintext True) @ keysEx (samplePlaintext True)\<rparr>)
       = (Inl cancelled, popupEditor,
          act [Emit Editor encrypt_in_progress,
               EncryptMessageCall (Data ''mail'') [''F9''] (Some ''F1''),
               Emit Editor (show_pwd_dialog ''pwd1'')] sampleWorld)
   \<and> onEditorPlaintext (sampleEnv sampleTable []) cancellingEnv popupEditor sampleWorld
         (samplePlaintext True)
       = (popupEditor,
          act [Emit Self hide_pwd_dialog]
            (act [Emit Editor encrypt_in_progress,
                  EncryptMessageCall (Data ''mail'') [''F9''] (Some ''F1''),
                  Emit Editor (show_pwd_dialog ''pwd1'')] sampleWorld))"
proof -
  have p: "popup popupEditor \<noteq> None"
    by (simp add: popupEditor_def)
  have c: "code cancelled = Some ''PWD_DIALOG_CANCEL''"
    by (simp add: cancelled_def MvError_def)
  have g: "signAndEncrypt (sampleEnv sampleTable []) cancellingEnv popupEditor sampleWorld
         ((samplePlaintext True)\<lparr>p_keys := keysTo (samplePlaintext True)
             @ keysCc (samplePlaintext True) @ keysEx (samplePlaintext True)\<rparr>)
       = (Inl cancelled, popupEditor,
          act [Emit Editor encrypt_in_progress,
               EncryptMessageCall (Data ''mail'') [''F9''] (Some ''F1''),
               Emit Editor (show_pwd_dialog ''pwd1'')] sampleWorld)"
    by (simp add: signAndEncrypt_def encryptWith_def getPublicKeyFprs_def
      encryptMessage_def runEngine_def unlockKey_def popupEditor_def newEditorController_def
      cancellingEnv_def sampleEditorEnv_def sampleEnv_def sampleWorld_def samplePlaintext_def
      storedKey_def truthy_def act_def sortAndDeDup_F9 Let_def)
  from cancel_in_popup_is_silent [OF p g c] p c g show ?thesis
    by blast
qed

subsection \<open>A payload that cannot be built\<close>

text \<open>
  C8 has a failure of the payload assembly abort the run before the engine is called.
  When \<^verbatim>\<open>buildMail\<close> returns \<^verbatim>\<open>null\<close> the code does so: the run ends with
  \<^verbatim>\<open>MIME building failed.\<close> and the engine is not called. When \<^verbatim>\<open>buildMail\<close> throws, it
  does not: the error is reported to the container and swallowed, \<^verbatim>\<open>data\<close> is still
  \<^verbatim>\<open>undefined\<close>, the test \<^verbatim>\<open>data === null\<close> lets it pass, the engine is called with
  \<^verbatim>\<open>undefined\<close>, and what the engine returns is handed to the container as the encrypted
  message.
\<close>

theorem build_failure_reaches_engine:
  "buildMail throwingBuildEnv (samplePlaintext False) = Inl quotaError
   \<and> trace (snd (onEditorPlaintext (sampleEnv sampleTable []) throwingBuildEnv containerEditor
        sampleWorld (samplePlaintext False)))
       = [Emit EditorCont (error_message quotaError),
          Emit Editor encrypt_in_progress,
          EncryptMessageCall Undefined [''F9''] None,
          Emit Editor encrypt_end,
          Emit EditorCont (encrypted_message ''ciphertext'')]
   \<and> trace (snd (onEditorPlaintext (sampleEnv sampleTable []) nullBuildEnv containerEditor
        sampleWorld (samplePlaintext False)))
       = [ConsoleLog ''MIME building failed.'',
          Emit Editor (error_message (Error ''MIME building failed.'')),
          Emit EditorCont (error_message (Error ''MIME building failed.'')),
          Emit Editor encrypt_failed]"
proof -
  have a: "buildMail throwingBuildEnv (samplePlaintext False) = Inl quotaError"
    by (simp add: throwingBuildEnv_def sampleEditorEnv_def)
  have b: "trace (snd (onEditorPlaintext (sampleEnv sampleTable []) throwingBuildEnv containerEditor
        sampleWorld (samplePlaintext False)))
       = [Emit EditorCont (error_message quotaError),
          Emit Editor encrypt_in_progress,
          EncryptMessageCall Undefined [''F9''] None,
          Emit Editor encrypt_end,
          Emit EditorCont (encrypted_message ''ciphertext'')]"
    by (simp add: onEditorPlaintext_def plaintextTry_def signAndEncrypt_def encryptWith_def
        getPublicKeyFprs_def encryptMessage_def runEngine_def onEditorClose_def
        transferEncrypted_def containerEditor_def newEditorController_def throwingBuildEnv_def
        sampleEditorEnv_def sampleEnv_def sampleWorld_def samplePlaintext_def act_def
        sortAndDeDup_F9 Let_def)
  have c: "trace (snd (onEditorPlaintext (sampleEnv sampleTable []) nullBuildEnv containerEditor
        sampleWorld (samplePlaintext False)))
       = [ConsoleLog ''MIME building failed.'',
          Emit Editor (error_message (Error ''MIME building failed.'')),
          Emit EditorCont (error_message (Error ''MIME building failed.'')),
          Emit Editor encrypt_failed]"
    by (simp add: onEditorPlaintext_def plaintextTry_def signAndEncrypt_def encryptWith_def
        getPublicKeyFprs_def containerEditor_def newEditorController_def nullBuildEnv_def
        sampleEditorEnv_def sampleEnv_def sampleWorld_def samplePlaintext_def act_def
        sortAndDeDup_F9 Error_def Let_def)
  from a b c show ?thesis by blast
qed

subsection \<open>A recipient without key\<close>

text \<open>No method of the import controller starts an encryption.\<close>

lemma continues_refl: "continues w w"
  by (simp add: continues_def extendsBy_refl)

lemma continues_act:
  "continues w0 w \<Longrightarrow> list_all (\<lambda>a. \<not> startsEncryption a) as \<Longrightarrow> continues w0 (act as w)"
  by (simp add: continues_def extendsBy_act_trans)

lemma continues_keystore: "continues w0 w \<Longrightarrow> continues w0 (w\<lparr>keystore := ks\<rparr>)"
  by (simp add: continues_def extendsBy_def)

lemma continues_created: "continues w0 w \<Longrightarrow> continues w0 (w\<lparr>created := n\<rparr>)"
  by (simp add: continues_def extendsBy_def)

lemma closePopup_continues:
  "continues w0 w \<Longrightarrow> continues w0 (snd (closePopup c w))"
  by (simp add: closePopup_def continues_act split: option.splits)

lemma importKeysCall_continues:
  "continues w0 w \<Longrightarrow> continues w0 (snd (importKeysCall E kr a w))"
  by (simp add: importKeysCall_def continues_act continues_keystore split: prod.splits)

lemma openPopup_continues:
  "continues w0 w \<Longrightarrow> continues w0 (snd (snd (openPopup c w)))"
  by (simp add: openPopup_def continues_act Let_def)

lemma handleCancel_continues:
  "continues w0 w \<Longrightarrow> continues w0 (snd (snd (handleCancel c w)))"
  using closePopup_continues [of w0 w c]
  by (cases "closePopup c w") (simp add: handleCancel_def split: option.splits)

lemma onImportOk_continues:
  assumes "continues w0 w"
  shows "continues w0 (snd (snd (onImportOk E c w)))"
proof (cases "keyring c")
  case None
  with assms show ?thesis by (simp add: onImportOk_def)
next
  case (Some kr)
  obtain res w1 where i: "importKeysCall E kr (armored c) w = (res, w1)"
    by (cases "importKeysCall E kr (armored c) w")
  from importKeysCall_continues [OF assms, of E kr "armored c"] i
  have w1: "continues w0 w1" by simp
  obtain c2 w2 where cp: "closePopup c w1 = (c2, w2)"
    by (cases "closePopup c w1")
  from closePopup_continues [OF w1, of c] cp have w2: "continues w0 w2" by simp
  from Some i cp w1 w2 show ?thesis
    by (simp add: onImportOk_def continues_act split: option.splits)
qed

lemma updateKey_continues:
  assumes "continues w0 w"
  shows "continues w0 (snd (snd (updateKey E c w fp stockKey newKey)))"
proof -
  have a: "continues w0 (snd (snd (openPopup c' w)))" for c'
    using assms by (rule openPopup_continues)
  have b: "continues w0 w1" if "importKeysCall E kr (armored c) w = (r, w1)" for kr r w1
    using importKeysCall_continues [OF assms, of E kr "armored c"] that by simp
  show ?thesis
    by (auto simp: updateKey_def Let_def a assms split: option.splits prod.splits dest: b)
qed

lemma importKeyBody_continues:
  assumes "continues w0 w"
  shows "continues w0 (snd (snd (importKeyBody E c w krId arm rot)))"
proof -
  let ?l = "ConsoleLog ''Multiple keys detected during key import, only first key is imported.''"
  have l: "continues w0 (act [?l] w)"
    using assms by (simp add: continues_act)
  show ?thesis
    by (simp add: importKeyBody_def Let_def l assms
        split: sum.splits option.splits list.splits)
qed

lemma importKey_continues:
  assumes "continues w0 w"
  shows "continues w0 (snd (snd (importKey E c w krId arm rot)))"
proof -
  obtain r c1 w1 where b: "importKeyBody E c w krId arm rot = (r, c1, w1)"
    by (cases "importKeyBody E c w krId arm rot")
  from importKeyBody_continues [OF assms, of E c krId arm rot] b have w1: "continues w0 w1"
    by simp
  show ?thesis
    by (simp add: importKey_def b w1 openPopup_continues updateKey_continues
        split: try_end.splits option.splits)
qed

lemma dispatch_continues:
  assumes "continues w0 w"
  shows "continues w0 (snd (snd (dispatch E ev c w)))"
  using assms
  by (cases ev)
     (simp_all add: dispatch_def onImportOk_continues handleCancel_continues onPopupRemoved_def
        continues_act)

lemma awaitPopup_continues:
  "continues w0 w \<Longrightarrow> awaitPopup E evs c w = Some (r, c', w', evs') \<Longrightarrow> continues w0 w'"
proof (induction evs arbitrary: c w)
  case Nil
  then show ?case
    by (auto split: option.splits promise.splits)
next
  case (Cons ev evs)
  obtain r1 c1 w1 where d: "dispatch E ev c w = (r1, c1, w1)"
    by (cases "dispatch E ev c w")
  from dispatch_continues [OF Cons.prems(1), of E ev c] d have w1: "continues w0 w1"
    by simp
  from Cons.prems show ?case
    by (auto simp: d split: option.splits promise.splits intro: Cons.IH [OF w1])
qed

lemma lookupKey_continues:
  assumes "continues w0 w" and "lookupKey E evs w krId mail rot = Some (w', evs')"
  shows "continues w0 w'"
proof (cases "registryLookup E (keystore w) mail krId")
  case None
  with assms show ?thesis by (simp add: lookupKey_def)
next
  case (Some arm)
  let ?c = "newImportController (getHash E (created w))"
  let ?w = "w\<lparr>created := Suc (created w)\<rparr>"
  obtain r c1 w1 where i: "importKey E ?c ?w krId arm rot = (r, c1, w1)"
    by (cases "importKey E ?c ?w krId arm rot")
  have "continues w0 ?w"
    using assms(1) by (rule continues_created)
  from importKey_continues [OF this, of E ?c krId arm rot] i have w1: "continues w0 w1"
    by simp
  show ?thesis
  proof (cases r)
    case (Returns v)
    with assms(2) Some i w1 show ?thesis by (simp add: lookupKey_def Let_def)
  next
    case (Throws e)
    with assms(2) Some i w1 show ?thesis by (auto simp: lookupKey_def Let_def continues_act)
  next
    case ReturnsPopupPromise
    with assms(2) Some i
    obtain r2 c2 w2 where a: "awaitPopup E evs c1 w1 = Some (r2, c2, w2, evs')"
      and w': "w' = w2 \<or> w' = act [ConsoleLog ''Key import after auto locate failed''] w2"
      by (auto simp: lookupKey_def Let_def split: option.splits completion.splits)
    from awaitPopup_continues [OF w1 a] have "continues w0 w2" .
    with w' show ?thesis by (auto simp: continues_act)
  qed
qed

lemma lookupMissingKeys_continues:
  "continues w0 w \<Longrightarrow> lookupMissingKeys E X krId entries keyMap w evs = Some (keyMap', w', evs')
   \<Longrightarrow> continues w0 w'"
proof (induction entries arbitrary: keyMap w evs)
  case Nil
  then show ?case by simp
next
  case (Cons entry entries)
  obtain mail ks where e: "entry = (mail, ks)" by (cases entry)
  show ?case
  proof (cases ks)
    case (Some k)
    with Cons e show ?thesis by simp
  next
    case None
    with Cons.prems(2) e
    obtain w1 evs1 where l: "lookupKey E evs w krId mail None = Some (w1, evs1)"
      and r: "lookupMissingKeys E X krId entries
                (AList.update mail (getKeyByAddress X (keystore w1) krId mail) keyMap) w1 evs1
              = Some (keyMap', w', evs')"
      by (auto split: option.splits)
    from lookupKey_continues [OF Cons.prems(1) l] have "continues w0 w1" .
    from Cons.IH [OF this r] show ?thesis .
  qed
qed

lemma missing_in_fprMap:
  "(r, None) \<in> set keyMap \<Longrightarrow> \<exists>v \<in> set (map snd (mapAddressKeyMapToFpr E keyMap)). v = None"
  by (force simp: mapAddressKeyMapToFpr_def)

text \<open>
  C2. When the lookup of the missing keys has returned and the map it leaves has an
  address without key (the keyring has none and the lookup brought none),
  \<^verbatim>\<open>onEditorContainerEncrypt\<close> returns after emitting \<^verbatim>\<open>error-message\<close> with code
  \<^verbatim>\<open>NO_KEY_FOR_RECIPIENT\<close> on the container port. From the start of the handler to its end
  (the key lookups and imports included) the engine is not called and the editor is not
  asked for the plaintext, which is the one event that leads to \<^verbatim>\<open>signAndEncrypt\<close>; the
  fingerprint buffer is not set.
\<close>

theorem unresolved_recipient_blocks_encryption:
  assumes look: "lookupMissingKeys E X (em_keyringId msg)
                   (getKeyByAddressMap X (keystore w) (em_keyringId msg) (recipients msg))
                   (getKeyByAddressMap X (keystore w) (em_keyringId msg) (recipients msg)) w evs
                 = Some (keyMap, w1, evs1)"
      and missing: "(r, None) \<in> set keyMap"
  shows "\<exists>w'. onEditorContainerEncrypt E X s w evs msg
              = Some (s\<lparr>pgpMIME := True, ec_keyringId := em_keyringId msg\<rparr>, w', evs1)
          \<and> trace w' = trace w1 @ [Emit EditorCont (error_message
                \<lparr>message = ''No valid encryption key for recipient address'',
                 code = Some ''NO_KEY_FOR_RECIPIENT''\<rparr>)]
          \<and> continues w w'"
proof -
  let ?e = "Emit EditorCont (error_message
                \<lparr>message = ''No valid encryption key for recipient address'',
                 code = Some ''NO_KEY_FOR_RECIPIENT''\<rparr>)"
  from missing have m: "\<exists>v \<in> set (map snd (mapAddressKeyMapToFpr E keyMap)). v = None"
    by (rule missing_in_fprMap)
  have r: "onEditorContainerEncrypt E X s w evs msg
              = Some (s\<lparr>pgpMIME := True, ec_keyringId := em_keyringId msg\<rparr>, act [?e] w1, evs1)"
    using m by (simp add: onEditorContainerEncrypt_def Let_def look)
  have "continues w w1"
    using continues_refl look by (rule lookupMissingKeys_continues)
  then have c: "continues w (act [?e] w1)"
    by (simp add: continues_act)
  have t: "trace (act [?e] w1) = trace w1 @ [?e]"
    by (simp add: act_def)
  from r t c show ?thesis by blast
qed

theorem unresolved_recipient_blocks_encryption_witness:
  "lookupMissingKeys (sampleEnv sampleTable []) nullBuildEnv (em_keyringId twoRecipients)
      (getKeyByAddressMap nullBuildEnv (keystore sampleWorld) (em_keyringId twoRecipients)
         (recipients twoRecipients))
      (getKeyByAddressMap nullBuildEnv (keystore sampleWorld) (em_keyringId twoRecipients)
         (recipients twoRecipients)) sampleWorld []
     = Some ([(''a@x.com'', Some [storedKey]), (''b@x.com'', None)], sampleWorld, [])
   \<and> (''b@x.com'', None) \<in> set [(''a@x.com'', Some [storedKey]), (''b@x.com'', None)]
   \<and> (\<exists>w'. onEditorContainerEncrypt (sampleEnv sampleTable []) nullBuildEnv
            (newEditorController True) sampleWorld [] twoRecipients
          = Some ((newEditorController True)\<lparr>pgpMIME := True, ec_keyringId := ''kr''\<rparr>, w', [])
        \<and> trace w' = [Emit EditorCont (error_message
                \<lparr>message = ''No valid encryption key for recipient address'',
                 code = Some ''NO_KEY_FOR_RECIPIENT''\<rparr>)])"
proof -
  have k: "getKeyByAddressMap nullBuildEnv (keystore sampleWorld) (em_keyringId twoRecipients)
         (recipients twoRecipients) = [(''a@x.com'', Some [storedKey]), (''b@x.com'', None)]"
    by (simp add: getKeyByAddressMap_def nullBuildEnv_def sampleEditorEnv_def sampleWorld_def
        twoRecipients_def storedKey_def)
  have g: "getKeyByAddress nullBuildEnv (keystore sampleWorld) ''kr'' ''b@x.com'' = None"
    by (simp add: nullBuildEnv_def sampleEditorEnv_def sampleWorld_def storedKey_def)
  have l: "lookupKey (sampleEnv sampleTable []) [] sampleWorld ''kr'' ''b@x.com'' None
             = Some (sampleWorld, [])"
    by (simp add: lookupKey_def sampleEnv_def)
  have a: "lookupMissingKeys (sampleEnv sampleTable []) nullBuildEnv (em_keyringId twoRecipients)
      (getKeyByAddressMap nullBuildEnv (keystore sampleWorld) (em_keyringId twoRecipients)
         (recipients twoRecipients))
      (getKeyByAddressMap nullBuildEnv (keystore sampleWorld) (em_keyringId twoRecipients)
         (recipients twoRecipients)) sampleWorld []
     = Some ([(''a@x.com'', Some [storedKey]), (''b@x.com'', None)], sampleWorld, [])"
    by (simp add: k) (simp add: twoRecipients_def l g)
  have b: "(''b@x.com'', None) \<in> set [(''a@x.com'', Some [storedKey]), (''b@x.com'', None)]"
    by simp
  have t: "trace sampleWorld = []" "em_keyringId twoRecipients = ''kr''"
    by (simp_all add: sampleWorld_def twoRecipients_def)
  from unresolved_recipient_blocks_encryption [OF a b, of "newEditorController True"]
  have "\<exists>w'. onEditorContainerEncrypt (sampleEnv sampleTable []) nullBuildEnv
            (newEditorController True) sampleWorld [] twoRecipients
          = Some ((newEditorController True)\<lparr>pgpMIME := True, ec_keyringId := ''kr''\<rparr>, w', [])
        \<and> trace w' = [Emit EditorCont (error_message
                \<lparr>message = ''No valid encryption key for recipient address'',
                 code = Some ''NO_KEY_FOR_RECIPIENT''\<rparr>)]"
    by (auto simp: t)
  with a b show ?thesis by blast
qed

end
